theory Spec2Isabelle
  imports Complex_Main "HOL-Library.Word" "HOL-Library.AList"
begin

section \<open>Values shared by the engine\<close>

text \<open>
  Python floats are modelled by \<open>real\<close> (exact arithmetic), Python integers by \<open>int\<close>,
  a Python \<open>str\<close> by the list of its code points (so that \<open>text[:50]\<close> is \<open>take 50\<close>),
  a \<open>UUID\<close> by its 128-bit number and a \<open>datetime\<close> by its count of microseconds.
\<close>

type_synonym uuid = "128 word"
type_synonym pystr = "nat list"
type_synonym datetime = nat

definition ascii :: "string \<Rightarrow> pystr" where
  "ascii s = map of_char s"

datatype error = ValueError pystr | KeyError pystr | IndexError | TypeError

subsection \<open>The text of a UUID and of a datetime\<close>

text \<open>
  \<open>str(UUID)\<close> is the number in 32 lower-case hexadecimal digits, grouped 8-4-4-4-12 by
  hyphens (code point 45). \<open>UUID(text)\<close> drops the hyphens, wants 32 characters and reads
  them in base 16; the other spellings the library accepts (a \<open>urn:uuid:\<close> prefix, braces)
  are not modelled.
\<close>

definition hex_digit :: "nat \<Rightarrow> nat" where
  "hex_digit d = (if d < 10 then 48 + d else 87 + d)"

definition hex_value :: "nat \<Rightarrow> nat option" where
  "hex_value c =
     (if 48 \<le> c \<and> c \<le> 57 then Some (c - 48)
      else if 97 \<le> c \<and> c \<le> 102 then Some (c - 87)
      else if 65 \<le> c \<and> c \<le> 70 then Some (c - 55)
      else None)"

fun hex_of :: "nat \<Rightarrow> nat \<Rightarrow> pystr" where
  "hex_of 0 n = []"
| "hex_of (Suc k) n = hex_of k (n div 16) @ [hex_digit (n mod 16)]"

fun parse_hex :: "pystr \<Rightarrow> nat \<Rightarrow> nat option" where
  "parse_hex [] acc = Some acc"
| "parse_hex (c # cs) acc =
     (case hex_value c of None \<Rightarrow> None | Some d \<Rightarrow> parse_hex cs (acc * 16 + d))"

definition uuid_str :: "uuid \<Rightarrow> pystr" where
  "uuid_str u =
     (let h = hex_of 32 (unat u)
      in take 8 h @ [45] @ take 4 (drop 8 h) @ [45] @ take 4 (drop 12 h) @ [45]
         @ take 4 (drop 16 h) @ [45] @ drop 20 h)"

definition uuid_parse :: "pystr \<Rightarrow> error + uuid" where
  "uuid_parse s =
     (let h = filter (\<lambda>c. c \<noteq> 45) s
      in if length h \<noteq> 32 then Inl (ValueError (ascii ''badly formed hexadecimal UUID string''))
         else (case parse_hex h 0 of
                 None \<Rightarrow> Inl (ValueError (ascii ''invalid literal for int() with base 16''))
               | Some n \<Rightarrow> Inr (of_nat n)))"

text \<open>
  The ISO text of a datetime is modelled by the decimal digits of its count: like the
  library's text it is never empty, and \<open>fromisoformat\<close> reads it back exactly.
\<close>

function dec_of :: "nat \<Rightarrow> pystr" where
  "dec_of n = (if n < 10 then [48 + n] else dec_of (n div 10) @ [48 + n mod 10])"
  by pat_completeness auto
termination
  by (relation "measure id") auto

declare dec_of.simps [simp del]

fun parse_dec :: "pystr \<Rightarrow> nat \<Rightarrow> nat option" where
  "parse_dec [] acc = Some acc"
| "parse_dec (c # cs) acc =
     (if 48 \<le> c \<and> c \<le> 57 then parse_dec cs (acc * 10 + (c - 48)) else None)"

definition isoformat :: "datetime \<Rightarrow> pystr" where
  "isoformat d = dec_of d"

definition fromisoformat :: "pystr \<Rightarrow> error + datetime" where
  "fromisoformat s =
     (if s = [] then Inl (ValueError (ascii ''Invalid isoformat string''))
      else (case parse_dec s 0 of
              None \<Rightarrow> Inl (ValueError (ascii ''Invalid isoformat string''))
            | Some n \<Rightarrow> Inr n))"

text \<open>The profile of an agent (\<open>AgentProfile\<close> of engine/agent.py).\<close>

record AgentProfile =
  age_group :: pystr
  interests :: "pystr list"
  region :: pystr
  trust_threshold :: real
  openness :: real
  influence :: real

subsection \<open>The environment: random generator, identifier source and clock\<close>

text \<open>
  The results of \<open>random.random()\<close>, of the generator's integer draws, of \<open>uuid4()\<close>, of
  \<open>datetime.utcnow()\<close> and of \<open>AgentProfile.random\<close> (whose draws are \<open>choice\<close>,
  \<open>sample\<close> and \<open>betavariate\<close>) are inputs of the model: the \<open>k\<close>-th call of each
  returns the \<open>k\<close>-th value of its stream. \<open>randbelow n\<close> is the generator's integer draw
  below \<open>n\<close>, on which \<open>choice\<close>, \<open>randint\<close> and \<open>shuffle\<close> are built;
  \<open>uniform a b\<close> is \<open>a + (b - a) * random()\<close>.
\<close>

record env =
  random_vals :: "nat \<Rightarrow> real"
  random_calls :: nat
  int_vals :: "nat \<Rightarrow> nat"
  int_calls :: nat
  uuid_vals :: "nat \<Rightarrow> uuid"
  uuid_calls :: nat
  clock_vals :: "nat \<Rightarrow> datetime"
  clock_calls :: nat
  profile_vals :: "nat \<Rightarrow> AgentProfile"
  profile_calls :: nat

definition py_random :: "env \<Rightarrow> real \<times> env" where
  "py_random e = (random_vals e (random_calls e), e\<lparr>random_calls := random_calls e + 1\<rparr>)"

definition randbelow :: "nat \<Rightarrow> env \<Rightarrow> nat \<times> env" where
  "randbelow n e = (int_vals e (int_calls e) mod n, e\<lparr>int_calls := int_calls e + 1\<rparr>)"

definition uniform :: "real \<Rightarrow> real \<Rightarrow> env \<Rightarrow> real \<times> env" where
  "uniform a b e = (let (u, e') = py_random e in (a + (b - a) * u, e'))"

definition uuid4 :: "env \<Rightarrow> uuid \<times> env" where
  "uuid4 e = (uuid_vals e (uuid_calls e), e\<lparr>uuid_calls := uuid_calls e + 1\<rparr>)"

definition utcnow :: "env \<Rightarrow> datetime \<times> env" where
  "utcnow e = (clock_vals e (clock_calls e), e\<lparr>clock_calls := clock_calls e + 1\<rparr>)"

definition random_profile :: "env \<Rightarrow> AgentProfile \<times> env" where
  "random_profile e = (profile_vals e (profile_calls e), e\<lparr>profile_calls := profile_calls e + 1\<rparr>)"

section \<open>Idea model (engine/idea.py)\<close>

datatype MutationType = SIMPLIFY | EMOTIONALIZE | LOCALIZE | POLARIZE | MEMEIFY | RANDOM

record IdeaTarget =
  age_groups :: "pystr list"
  target_interests :: "pystr list"
  target_regions :: "pystr list"

record Idea =
  idea_id :: uuid
  idea_creator_id :: uuid
  idea_world_id :: uuid
  idea_text :: pystr
  tags :: "pystr list"
  media_refs :: "pystr list"
  target :: IdeaTarget
  virality_score :: real
  emotional_valence :: real
  complexity :: real
  parent_id :: "uuid option"
  mutation_type :: "MutationType option"
  generation :: int
  mutation_count :: int
  mutation_budget :: int
  embedding_id :: "pystr option"
  adopter_count :: int
  reach :: int
  rejection_count :: int
  idea_created_at :: datetime

definition adoption_rate :: "Idea \<Rightarrow> real" where
  "adoption_rate self =
     (if reach self = 0 then 0.0 else real_of_int (adopter_count self) / real_of_int (reach self))"

definition effective_virality :: "Idea \<Rightarrow> real" where
  "effective_virality self =
     (let complexity_factor = 1.0 - (complexity self * 0.5)
      in virality_score self * complexity_factor)"

definition can_mutate :: "Idea \<Rightarrow> bool" where
  "can_mutate self = (mutation_count self < mutation_budget self)"

definition record_exposure :: "Idea \<Rightarrow> Idea" where
  "record_exposure self = self\<lparr>reach := reach self + 1\<rparr>"

definition record_adoption :: "Idea \<Rightarrow> Idea" where
  "record_adoption self = self\<lparr>adopter_count := adopter_count self + 1\<rparr>"

definition record_rejection :: "Idea \<Rightarrow> Idea" where
  "record_rejection self = self\<lparr>rejection_count := rejection_count self + 1\<rparr>"

text \<open>
  \<open>create_mutation\<close> returns the environment, the parent as the call leaves it (it is
  updated in place) and either the raised \<open>ValueError\<close> or the mutant. The mutant's \<open>id\<close> and \<open>created_at\<close> come from
  the default factories \<open>uuid4\<close> and \<open>utcnow\<close>, called in field order; the fields the
  constructor call does not name take their class defaults.
\<close>

definition create_mutation ::
  "env \<Rightarrow> Idea \<Rightarrow> MutationType \<Rightarrow> pystr \<Rightarrow> real \<Rightarrow> real \<Rightarrow> env \<times> Idea \<times> (error + Idea)" where
  "create_mutation e self mutation_type' new_text virality_change emotional_change =
     (if \<not> can_mutate self
      then (e, self, Inl (ValueError (ascii ''Idea has exceeded mutation budget'')))
      else
        let self' = self\<lparr>mutation_count := mutation_count self + 1\<rparr>;
            (new_id, e1) = uuid4 e;
            (now, e2) = utcnow e1;
            mutant = \<lparr>
              idea_id = new_id,
              idea_creator_id = idea_creator_id self',
              idea_world_id = idea_world_id self',
              idea_text = new_text,
              tags = tags self',
              media_refs = media_refs self',
              target = \<lparr>
                age_groups = age_groups (target self'),
                target_interests = target_interests (target self'),
                target_regions = target_regions (target self')\<rparr>,
              virality_score = max 0.0 (min 1.0 (virality_score self' + virality_change)),
              emotional_valence = max 0.0 (min 1.0 (emotional_valence self' + emotional_change)),
              complexity = complexity self',
              parent_id = Some (idea_id self'),
              mutation_type = Some mutation_type',
              generation = generation self' + 1,
              mutation_count = 0,
              mutation_budget = mutation_budget self',
              embedding_id = None,
              adopter_count = 0,
              reach = 0,
              rejection_count = 0,
              idea_created_at = now\<rparr>
        in (e2, self', Inr mutant))"

definition calculate_spread_probability :: "Idea \<Rightarrow> real \<Rightarrow> real \<Rightarrow> real \<Rightarrow> real \<Rightarrow> real" where
  "calculate_spread_probability self sender_influence receiver_openness relevance trust_factor =
     (let p = effective_virality self
              * sender_influence
              * receiver_openness
              * relevance
              * trust_factor
              * (0.5 + emotional_valence self * 0.5)
      in max 0.0 (min 1.0 p))"

section \<open>Agent model (engine/agent.py)\<close>

text \<open>
  The sets \<open>connections\<close> and \<open>beliefs\<close> are sets of identifiers; where the source iterates
  over one, the model takes its elements in increasing order. The dictionary
  \<open>idea_exposures\<close> is a map.
\<close>

record AgentState =
  mood :: real
  susceptibility :: real
  last_active_step :: int
  exposure_count :: int
  adoption_count :: int

record Agent =
  agent_id :: uuid
  agent_world_id :: uuid
  profile :: AgentProfile
  state :: AgentState
  connections :: "uuid set"
  beliefs :: "uuid set"
  idea_exposures :: "uuid \<rightharpoonup> int"
  memory_refs :: "pystr list"

definition update_susceptibility :: "AgentState \<Rightarrow> bool \<Rightarrow> AgentState" where
  "update_susceptibility self adopted =
     (if adopted
      then self\<lparr>susceptibility := max 0.1 (susceptibility self * 0.95)\<rparr>
      else self\<lparr>susceptibility := min 0.9 (susceptibility self * 1.02)\<rparr>)"

definition add_connection :: "Agent \<Rightarrow> uuid \<Rightarrow> Agent" where
  "add_connection self aid =
     (if aid \<noteq> agent_id self then self\<lparr>connections := insert aid (connections self)\<rparr> else self)"

definition remove_connection :: "Agent \<Rightarrow> uuid \<Rightarrow> Agent" where
  "remove_connection self aid = self\<lparr>connections := connections self - {aid}\<rparr>"

definition has_idea :: "Agent \<Rightarrow> uuid \<Rightarrow> bool" where
  "has_idea self iid = (iid \<in> beliefs self)"

definition expose_to_idea :: "Agent \<Rightarrow> uuid \<Rightarrow> Agent \<times> int" where
  "expose_to_idea self iid =
     (let self1 = self\<lparr>state := (state self)\<lparr>exposure_count := exposure_count (state self) + 1\<rparr>\<rparr>;
          current = (case idea_exposures self1 iid of None \<Rightarrow> 0 | Some c \<Rightarrow> c)
      in (self1\<lparr>idea_exposures := (idea_exposures self1)(iid \<mapsto> current + 1)\<rparr>, current + 1))"

definition adopt_idea :: "Agent \<Rightarrow> uuid \<Rightarrow> Agent \<times> bool" where
  "adopt_idea self iid =
     (if iid \<in> beliefs self then (self, False)
      else
        let self1 = self\<lparr>beliefs := insert iid (beliefs self)\<rparr>;
            self2 = self1\<lparr>state := (state self1)\<lparr>adoption_count := adoption_count (state self1) + 1\<rparr>\<rparr>;
            self3 = self2\<lparr>state := update_susceptibility (state self2) True\<rparr>
        in (self3, True))"

definition forget_idea :: "Agent \<Rightarrow> uuid \<Rightarrow> Agent \<times> bool" where
  "forget_idea self iid =
     (if iid \<notin> beliefs self then (self, False)
      else (self\<lparr>beliefs := beliefs self - {iid}\<rparr>, True))"

definition calculate_idea_relevance :: "Agent \<Rightarrow> pystr list \<Rightarrow> real" where
  "calculate_idea_relevance self idea_tags =
     (if idea_tags = [] \<or> interests (profile self) = [] then 0.3
      else
        let overlap = set idea_tags \<inter> set (interests (profile self))
        in if overlap = {} then 0.2
           else
             let relevance = real (card overlap)
                   / real (max (length idea_tags) (length (interests (profile self))))
             in 0.2 + (relevance * 0.8))"

section \<open>Serialisation (to_dict and from_dict)\<close>

text \<open>
  The dictionaries that \<open>to_dict\<close> builds and \<open>from_dict\<close> reads hold Python values:
  \<open>None\<close>, strings, integers, floats, lists and dictionaries with string keys.
  \<open>item data key\<close> is \<open>data[key]\<close>, which raises \<open>KeyError\<close> on a missing key, and
  \<open>get_or data key dflt\<close> is \<open>data.get(key, dflt)\<close>; \<open>truthy\<close> is the truth value of a
  value in a condition. The records of the model are typed, so a value of another type
  than its field's is a \<open>TypeError\<close> here. \<open>and_then\<close> passes the first error on, as the
  exception would.
\<close>

datatype pyval = PyNone | PyStr pystr | PyInt int | PyFloat real
  | PyList "pyval list" | PyDict "(string \<times> pyval) list"

type_synonym pydict = "(string \<times> pyval) list"

definition and_then :: "error + 'a \<Rightarrow> ('a \<Rightarrow> error + 'b) \<Rightarrow> error + 'b" where
  "and_then r f = (case r of Inl err \<Rightarrow> Inl err | Inr x \<Rightarrow> f x)"

definition item :: "pydict \<Rightarrow> string \<Rightarrow> error + pyval" where
  "item data key = (case map_of data key of None \<Rightarrow> Inl (KeyError (ascii key)) | Some v \<Rightarrow> Inr v)"

definition get_or :: "pydict \<Rightarrow> string \<Rightarrow> pyval \<Rightarrow> pyval" where
  "get_or data key dflt = (case map_of data key of None \<Rightarrow> dflt | Some v \<Rightarrow> v)"

fun truthy :: "pyval \<Rightarrow> bool" where
  "truthy PyNone = False"
| "truthy (PyStr s) = (s \<noteq> [])"
| "truthy (PyInt i) = (i \<noteq> 0)"
| "truthy (PyFloat r) = (r \<noteq> 0)"
| "truthy (PyList xs) = (xs \<noteq> [])"
| "truthy (PyDict kvs) = (kvs \<noteq> [])"

fun as_str :: "pyval \<Rightarrow> error + pystr" where
  "as_str (PyStr s) = Inr s"
| "as_str v = Inl TypeError"

fun as_opt_str :: "pyval \<Rightarrow> error + pystr option" where
  "as_opt_str PyNone = Inr None"
| "as_opt_str (PyStr s) = Inr (Some s)"
| "as_opt_str v = Inl TypeError"

fun as_int :: "pyval \<Rightarrow> error + int" where
  "as_int (PyInt i) = Inr i"
| "as_int v = Inl TypeError"

fun as_float :: "pyval \<Rightarrow> error + real" where
  "as_float (PyFloat r) = Inr r"
| "as_float (PyInt i) = Inr (real_of_int i)"
| "as_float v = Inl TypeError"

fun as_dict :: "pyval \<Rightarrow> error + pydict" where
  "as_dict (PyDict kvs) = Inr kvs"
| "as_dict v = Inl TypeError"

fun str_items :: "pyval list \<Rightarrow> error + pystr list" where
  "str_items [] = Inr []"
| "str_items (v # vs) = and_then (as_str v) (\<lambda>s. and_then (str_items vs) (\<lambda>ss. Inr (s # ss)))"

fun as_str_list :: "pyval \<Rightarrow> error + pystr list" where
  "as_str_list (PyList vs) = str_items vs"
| "as_str_list v = Inl TypeError"

fun uuid_items :: "pyval list \<Rightarrow> error + uuid list" where
  "uuid_items [] = Inr []"
| "uuid_items (v # vs) =
     and_then (as_str v) (\<lambda>s. and_then (uuid_parse s) (\<lambda>u.
     and_then (uuid_items vs) (\<lambda>us. Inr (u # us))))"

fun as_uuid_set :: "pyval \<Rightarrow> error + uuid set" where
  "as_uuid_set (PyList vs) = and_then (uuid_items vs) (\<lambda>us. Inr (set us))"
| "as_uuid_set v = Inl TypeError"

definition as_uuid :: "pyval \<Rightarrow> error + uuid" where
  "as_uuid v = and_then (as_str v) uuid_parse"

fun mutation_type_value :: "MutationType \<Rightarrow> pystr" where
  "mutation_type_value SIMPLIFY = ascii ''simplify''"
| "mutation_type_value EMOTIONALIZE = ascii ''emotionalize''"
| "mutation_type_value LOCALIZE = ascii ''localize''"
| "mutation_type_value POLARIZE = ascii ''polarize''"
| "mutation_type_value MEMEIFY = ascii ''memeify''"
| "mutation_type_value RANDOM = ascii ''random''"

definition mutation_type_of :: "pystr \<Rightarrow> error + MutationType" where
  "mutation_type_of s =
     (if s = ascii ''simplify'' then Inr SIMPLIFY
      else if s = ascii ''emotionalize'' then Inr EMOTIONALIZE
      else if s = ascii ''localize'' then Inr LOCALIZE
      else if s = ascii ''polarize'' then Inr POLARIZE
      else if s = ascii ''memeify'' then Inr MEMEIFY
      else if s = ascii ''random'' then Inr RANDOM
      else Inl (ValueError (s @ ascii '' is not a valid MutationType'')))"

text \<open>\<open>Idea.to_dict\<close> and \<open>Idea.from_dict\<close>; the latter calls \<open>utcnow\<close> when \<open>created_at\<close> is absent.\<close>

definition idea_to_dict :: "Idea \<Rightarrow> pydict" where
  "idea_to_dict self =
     [(''id'', PyStr (uuid_str (idea_id self))),
      (''creator_id'', PyStr (uuid_str (idea_creator_id self))),
      (''world_id'', PyStr (uuid_str (idea_world_id self))),
      (''text'', PyStr (idea_text self)),
      (''tags'', PyList (map PyStr (tags self))),
      (''media_refs'', PyList (map PyStr (media_refs self))),
      (''target'', PyDict
         [(''age_groups'', PyList (map PyStr (age_groups (target self)))),
          (''interests'', PyList (map PyStr (target_interests (target self)))),
          (''regions'', PyList (map PyStr (target_regions (target self))))]),
      (''virality_score'', PyFloat (virality_score self)),
      (''emotional_valence'', PyFloat (emotional_valence self)),
      (''complexity'', PyFloat (complexity self)),
      (''parent_id'', (case parent_id self of Some p \<Rightarrow> PyStr (uuid_str p) | None \<Rightarrow> PyNone)),
      (''mutation_type'',
         (case mutation_type self of Some k \<Rightarrow> PyStr (mutation_type_value k) | None \<Rightarrow> PyNone)),
      (''generation'', PyInt (generation self)),
      (''mutation_count'', PyInt (mutation_count self)),
      (''mutation_budget'', PyInt (mutation_budget self)),
      (''embedding_id'', (case embedding_id self of Some s \<Rightarrow> PyStr s | None \<Rightarrow> PyNone)),
      (''adopter_count'', PyInt (adopter_count self)),
      (''reach'', PyInt (reach self)),
      (''rejection_count'', PyInt (rejection_count self)),
      (''adoption_rate'', PyFloat (adoption_rate self)),
      (''created_at'', PyStr (isoformat (idea_created_at self)))]"

definition idea_from_dict :: "env \<Rightarrow> pydict \<Rightarrow> env \<times> (error + Idea)" where
  "idea_from_dict e data =
     (case
        and_then (and_then (item data ''id'') as_uuid) (\<lambda>id'.
        and_then (and_then (item data ''creator_id'') as_uuid) (\<lambda>creator.
        and_then (and_then (item data ''world_id'') as_uuid) (\<lambda>world.
        and_then (and_then (item data ''text'') as_str) (\<lambda>text'.
        and_then (as_str_list (get_or data ''tags'' (PyList []))) (\<lambda>tags'.
        and_then (as_str_list (get_or data ''media_refs'' (PyList []))) (\<lambda>media.
        and_then (as_dict (get_or data ''target'' (PyDict []))) (\<lambda>td.
        and_then (as_str_list (get_or td ''age_groups'' (PyList []))) (\<lambda>ag.
        and_then (as_str_list (get_or td ''interests'' (PyList []))) (\<lambda>ti.
        and_then (as_str_list (get_or td ''regions'' (PyList []))) (\<lambda>tr.
        and_then (as_float (get_or data ''virality_score'' (PyFloat 0.2))) (\<lambda>vs.
        and_then (as_float (get_or data ''emotional_valence'' (PyFloat 0.5))) (\<lambda>ev.
        and_then (as_float (get_or data ''complexity'' (PyFloat 0.3))) (\<lambda>cx.
        and_then (if truthy (get_or data ''parent_id'' PyNone)
                  then and_then (and_then (item data ''parent_id'') as_uuid) (\<lambda>p. Inr (Some p))
                  else Inr None) (\<lambda>parent.
        and_then (if truthy (get_or data ''mutation_type'' PyNone)
                  then and_then (and_then (and_then (item data ''mutation_type'') as_str)
                         mutation_type_of) (\<lambda>k. Inr (Some k))
                  else Inr None) (\<lambda>mt.
        and_then (as_int (get_or data ''generation'' (PyInt 0))) (\<lambda>gen.
        and_then (as_int (get_or data ''mutation_count'' (PyInt 0))) (\<lambda>mc.
        and_then (as_int (get_or data ''mutation_budget'' (PyInt 3))) (\<lambda>mb.
        and_then (as_opt_str (get_or data ''embedding_id'' PyNone)) (\<lambda>emb.
        and_then (as_int (get_or data ''adopter_count'' (PyInt 0))) (\<lambda>ac.
        and_then (as_int (get_or data ''reach'' (PyInt 0))) (\<lambda>rc.
        and_then (as_int (get_or data ''rejection_count'' (PyInt 0))) (\<lambda>rj.
        Inr (\<lambda>created.
          \<lparr>idea_id = id', idea_creator_id = creator, idea_world_id = world,
           idea_text = text', tags = tags', media_refs = media,
           target = \<lparr>age_groups = ag, target_interests = ti, target_regions = tr\<rparr>,
           virality_score = vs, emotional_valence = ev, complexity = cx,
           parent_id = parent, mutation_type = mt, generation = gen,
           mutation_count = mc, mutation_budget = mb, embedding_id = emb,
           adopter_count = ac, reach = rc, rejection_count = rj,
           idea_created_at = created\<rparr>)))))))))))))))))))))))
      of
        Inl err \<Rightarrow> (e, Inl err)
      | Inr mk \<Rightarrow>
          if truthy (get_or data ''created_at'' PyNone)
          then (case and_then (and_then (item data ''created_at'') as_str) fromisoformat of
                  Inl err \<Rightarrow> (e, Inl err)
                | Inr created \<Rightarrow> (e, Inr (mk created)))
          else (let (now, e1) = utcnow e in (e1, Inr (mk now))))"

text \<open>
  \<open>Agent.to_dict\<close> and \<open>Agent.from_dict\<close>. Neither names \<open>idea_exposures\<close> or
  \<open>memory_refs\<close>: the constructor call of \<open>from_dict\<close> leaves them at their defaults.
\<close>

definition agent_to_dict :: "Agent \<Rightarrow> pydict" where
  "agent_to_dict self =
     [(''id'', PyStr (uuid_str (agent_id self))),
      (''world_id'', PyStr (uuid_str (agent_world_id self))),
      (''profile'', PyDict
         [(''age_group'', PyStr (age_group (profile self))),
          (''interests'', PyList (map PyStr (interests (profile self)))),
          (''region'', PyStr (region (profile self))),
          (''trust_threshold'', PyFloat (trust_threshold (profile self))),
          (''openness'', PyFloat (openness (profile self))),
          (''influence'', PyFloat (influence (profile self)))]),
      (''state'', PyDict
         [(''mood'', PyFloat (mood (state self))),
          (''susceptibility'', PyFloat (susceptibility (state self))),
          (''last_active_step'', PyInt (last_active_step (state self))),
          (''exposure_count'', PyInt (exposure_count (state self))),
          (''adoption_count'', PyInt (adoption_count (state self)))]),
      (''connections'',
         PyList (map (\<lambda>c. PyStr (uuid_str c)) (sorted_list_of_set (connections self)))),
      (''beliefs'',
         PyList (map (\<lambda>b. PyStr (uuid_str b)) (sorted_list_of_set (beliefs self))))]"

definition agent_from_dict :: "pydict \<Rightarrow> error + Agent" where
  "agent_from_dict data =
     and_then (and_then (item data ''id'') as_uuid) (\<lambda>id'.
     and_then (and_then (item data ''world_id'') as_uuid) (\<lambda>world.
     and_then (and_then (item data ''profile'') as_dict) (\<lambda>pd.
     and_then (and_then (item pd ''age_group'') as_str) (\<lambda>ag.
     and_then (and_then (item pd ''interests'') as_str_list) (\<lambda>ints.
     and_then (and_then (item pd ''region'') as_str) (\<lambda>reg.
     and_then (and_then (item pd ''trust_threshold'') as_float) (\<lambda>tt.
     and_then (and_then (item pd ''openness'') as_float) (\<lambda>op.
     and_then (and_then (item pd ''influence'') as_float) (\<lambda>inf.
     and_then (and_then (item data ''state'') as_dict) (\<lambda>sd.
     and_then (and_then (item sd ''mood'') as_float) (\<lambda>md.
     and_then (and_then (item sd ''susceptibility'') as_float) (\<lambda>su.
     and_then (and_then (item sd ''last_active_step'') as_int) (\<lambda>la.
     and_then (and_then (item sd ''exposure_count'') as_int) (\<lambda>ec.
     and_then (and_then (item sd ''adoption_count'') as_int) (\<lambda>adc.
     let agent = \<lparr>agent_id = id', agent_world_id = world,
           profile = \<lparr>age_group = ag, interests = ints, region = reg,
             trust_threshold = tt, openness = op, influence = inf\<rparr>,
           state = \<lparr>mood = md, susceptibility = su, last_active_step = la,
             exposure_count = ec, adoption_count = adc\<rparr>,
           connections = {}, beliefs = {}, idea_exposures = Map.empty, memory_refs = []\<rparr>
     in
     and_then (and_then (item data ''connections'') as_uuid_set) (\<lambda>cs.
     and_then (and_then (item data ''beliefs'') as_uuid_set) (\<lambda>bs.
     Inr (agent\<lparr>connections := cs, beliefs := bs\<rparr>))))))))))))))))))"

section \<open>World model (engine/world.py)\<close>

datatype WorldStatus = CREATED | RUNNING | PAUSED | COMPLETED | ARCHIVED

datatype NetworkType = SCALE_FREE | SMALL_WORLD | RANDOM_net | GEO_LOCAL

record WorldConfig =
  population_size :: int
  network_type :: NetworkType
  network_density :: real
  mutation_rate :: real
  decay_rate :: real
  time_step_ms :: int
  max_steps :: "int option"
  regions :: "pystr list"
  region_weights :: "real list"

record SpreadEvent =
  ev_idea_id :: uuid
  ev_from_agent_id :: uuid
  ev_to_agent_id :: uuid
  ev_probability :: real
  ev_accepted :: bool
  ev_step :: int
  ev_timestamp :: datetime

subsection \<open>The undirected graph of the networkx library\<close>

text \<open>
  A graph is the library's adjacency dictionary: each node with its neighbours, both in
  insertion order. \<open>add_edge\<close> enters each end among the other's neighbours, and
  \<open>graph_edges\<close> reports every edge once, from the end that comes first among the nodes.
\<close>

type_synonym 'n Graph = "('n \<times> 'n list) list"

definition add_node :: "'n \<Rightarrow> 'n Graph \<Rightarrow> 'n Graph" where
  "add_node n g = (if n \<in> fst ` set g then g else g @ [(n, [])])"

definition add_neighbour :: "'n \<Rightarrow> 'n \<Rightarrow> 'n Graph \<Rightarrow> 'n Graph" where
  "add_neighbour u v g =
     map (\<lambda>(n, ns). if n = u then (n, if v \<in> set ns then ns else ns @ [v]) else (n, ns)) g"

definition add_edge :: "'n \<Rightarrow> 'n \<Rightarrow> 'n Graph \<Rightarrow> 'n Graph" where
  "add_edge u v g = add_neighbour v u (add_neighbour u v (add_node v (add_node u g)))"

fun edges_from :: "'n list \<Rightarrow> 'n Graph \<Rightarrow> ('n \<times> 'n) list" where
  "edges_from seen [] = []"
| "edges_from seen ((n, ns) # g) =
     map (Pair n) (filter (\<lambda>m. m \<notin> set seen) ns) @ edges_from (n # seen) g"

definition graph_edges :: "'n Graph \<Rightarrow> ('n \<times> 'n) list" where
  "graph_edges g = edges_from [] g"

subsection \<open>The world\<close>

text \<open>
  The dictionaries \<open>agents\<close> and \<open>ideas\<close> keep their insertion order: they are association
  lists, read with \<open>map_of\<close> and written with \<open>AList.update\<close>. An object held in one of
  them is named by its key, and an update of the object is written back under that key.
\<close>

record World =
  world_id :: uuid
  creator_id :: uuid
  name :: pystr
  description :: pystr
  config :: WorldConfig
  is_public :: bool
  status :: WorldStatus
  current_step :: int
  created_at :: datetime
  started_at :: "datetime option"
  completed_at :: "datetime option"
  agents :: "(uuid \<times> Agent) list"
  ideas :: "(uuid \<times> Idea) list"
  network :: "uuid Graph"
  recent_events :: "SpreadEvent list"
  max_recent_events :: int
  total_spread_events :: int
  total_adoptions :: int
  total_mutations :: int

definition new_world ::
  "env \<Rightarrow> uuid \<Rightarrow> uuid \<Rightarrow> pystr \<Rightarrow> WorldConfig \<Rightarrow> pystr \<Rightarrow> bool \<Rightarrow> World \<times> env" where
  "new_world e wid creator name' config' description' is_public' =
     (let (now, e1) = utcnow e
      in (\<lparr>world_id = wid, creator_id = creator, name = name', description = description',
            config = config', is_public = is_public', status = CREATED, current_step = 0,
            created_at = now, started_at = None, completed_at = None,
            agents = [], ideas = [], network = [],
            recent_events = [], max_recent_events = 1000,
            total_spread_events = 0, total_adoptions = 0, total_mutations = 0\<rparr>, e1))"

definition set_agent :: "uuid \<Rightarrow> Agent \<Rightarrow> World \<Rightarrow> World" where
  "set_agent k a w = w\<lparr>agents := AList.update k a (agents w)\<rparr>"

definition set_idea :: "uuid \<Rightarrow> Idea \<Rightarrow> World \<Rightarrow> World" where
  "set_idea k i w = w\<lparr>ideas := AList.update k i (ideas w)\<rparr>"

text \<open>\<open>xs[-m:]\<close> of Python: the last \<open>m\<close> elements for a positive \<open>m\<close>.\<close>

definition slice_from :: "int \<Rightarrow> 'a list \<Rightarrow> 'a list" where
  "slice_from k xs = (if k < 0 then drop (nat (int (length xs) + k)) xs else drop (nat k) xs)"

definition record_event :: "SpreadEvent \<Rightarrow> World \<Rightarrow> World" where
  "record_event event w =
     (let w1 = w\<lparr>recent_events := recent_events w @ [event]\<rparr>;
          w2 = w1\<lparr>total_spread_events := total_spread_events w1 + 1\<rparr>
      in if int (length (recent_events w2)) > max_recent_events w2
         then w2\<lparr>recent_events := slice_from (- max_recent_events w2) (recent_events w2)\<rparr>
         else w2)"

definition start :: "env \<Rightarrow> World \<Rightarrow> World \<times> env" where
  "start e w =
     (if status w = CREATED
      then (let (now, e1) = utcnow e in (w\<lparr>status := RUNNING, started_at := Some now\<rparr>, e1))
      else (w, e))"

definition pause :: "World \<Rightarrow> World" where
  "pause w = (if status w = RUNNING then w\<lparr>status := PAUSED\<rparr> else w)"

definition resume :: "World \<Rightarrow> World" where
  "resume w = (if status w = PAUSED then w\<lparr>status := RUNNING\<rparr> else w)"

subsection \<open>The mutation trigger\<close>

text \<open>
  \<open>_trigger_mutation\<close> of the source takes the idea object; here the idea is named by its
  key in the catalogue. The result is the world, with the parent written back and the
  mutant entered under its own identifier, and the mutant (\<open>None\<close> where the source
  returns \<open>None\<close>). \<open>mutation_types\<close> is \<open>list(MutationType)\<close>, and \<open>random.choice\<close>
  takes the element at the index drawn below the length of the list.
\<close>

definition mutation_types :: "MutationType list" where
  "mutation_types = [SIMPLIFY, EMOTIONALIZE, LOCALIZE, POLARIZE, MEMEIFY, RANDOM]"

definition trigger_mutation :: "env \<Rightarrow> World \<Rightarrow> uuid \<Rightarrow> env \<times> World \<times> Idea option" where
  "trigger_mutation e w idea_key =
     (case map_of (ideas w) idea_key of
        None \<Rightarrow> (e, w, None)
      | Some idea \<Rightarrow>
          if \<not> can_mutate idea then (e, w, None)
          else
            let (k, e1) = randbelow (length mutation_types) e;
                mutation_type' = mutation_types ! k;
                (virality_change, emotional_change, new_text, e2) =
                  (if mutation_type' = SIMPLIFY
                   then (0.05, 0.0, ascii ''[Simplified] '' @ take 100 (idea_text idea) @ ascii ''...'', e1)
                   else if mutation_type' = EMOTIONALIZE
                   then (0.02, 0.1, ascii ''[Emotional] '' @ idea_text idea, e1)
                   else if mutation_type' = POLARIZE
                   then (0.08, 0.15, ascii ''[Polarized] '' @ idea_text idea, e1)
                   else if mutation_type' = MEMEIFY
                   then (0.1, 0.0, ascii ''[Meme] '' @ take 50 (idea_text idea) @ ascii ''... '' @ [128293], e1)
                   else
                     let (vc, ea) = uniform (- 0.05) 0.1 e1;
                         (ec, eb) = uniform (- 0.05) 0.1 ea
                     in (vc, ec, ascii ''[Variant] '' @ idea_text idea, eb));
                (e3, idea', r) =
                  create_mutation e2 idea mutation_type' new_text virality_change emotional_change
            in (case r of
                  Inl err \<Rightarrow> (e3, w, None)
                | Inr mutant \<Rightarrow>
                    (e3, set_idea (idea_id mutant) mutant (set_idea idea_key idea' w), Some mutant)))"

subsection \<open>One tick\<close>

text \<open>
  The state of a running tick: the environment, the world and the four local counters of
  \<open>run_step\<close>.
\<close>

record tick =
  t_env :: env
  t_world :: World
  spread_attempts :: int
  adoptions :: int
  mutations :: int
  decays :: int

text \<open>
  The body of the innermost loop: the spreader named \<open>sid\<close> offers the idea named \<open>iid\<close>
  to its connection \<open>cid\<close>. The trust factor takes its default 1.0.
\<close>

definition spread_attempt :: "uuid \<Rightarrow> uuid \<Rightarrow> uuid \<Rightarrow> tick \<Rightarrow> tick" where
  "spread_attempt sid iid cid t =
     (let w = t_world t in
      case (map_of (agents w) sid, map_of (ideas w) iid, map_of (agents w) cid) of
        (Some spreader, Some idea, Some receiver) \<Rightarrow>
          if has_idea receiver iid then t
          else
            let relevance = calculate_idea_relevance receiver (tags idea);
                probability = calculate_spread_probability idea
                  (influence (profile spreader)) (openness (profile receiver)) relevance 1.0;
                t1 = t\<lparr>spread_attempts := spread_attempts t + 1\<rparr>;
                w1 = set_idea iid (record_exposure idea) w;
                w2 = set_agent cid (fst (expose_to_idea receiver iid)) w1;
                (u, e1) = py_random (t_env t1)
            in if u < probability
               then
                 let receiver2 = fst (adopt_idea (fst (expose_to_idea receiver iid)) iid);
                     w3 = set_agent cid receiver2 w2;
                     w4 = set_idea iid (record_adoption (record_exposure idea)) w3;
                     t2 = t1\<lparr>adoptions := adoptions t1 + 1\<rparr>;
                     w5 = w4\<lparr>total_adoptions := total_adoptions w4 + 1\<rparr>;
                     (now, e2) = utcnow e1;
                     event = \<lparr>ev_idea_id = iid, ev_from_agent_id = agent_id spreader,
                       ev_to_agent_id = agent_id receiver2, ev_probability = probability,
                       ev_accepted = True, ev_step = current_step w5, ev_timestamp = now\<rparr>;
                     w6 = record_event event w5
                 in if can_mutate (record_adoption (record_exposure idea))
                    then
                      let (u2, e3) = py_random e2
                      in if u2 < mutation_rate (config w6)
                         then
                           (case trigger_mutation e3 w6 iid of
                              (e4, w7, None) \<Rightarrow> t2\<lparr>t_env := e4, t_world := w7\<rparr>
                            | (e4, w7, Some mutant) \<Rightarrow>
                                t2\<lparr>t_env := e4,
                                   t_world := w7\<lparr>total_mutations := total_mutations w7 + 1\<rparr>,
                                   mutations := mutations t2 + 1\<rparr>)
                         else t2\<lparr>t_env := e3, t_world := w6\<rparr>
                    else t2\<lparr>t_env := e2, t_world := w6\<rparr>
               else
                 t1\<lparr>t_env := e1,
                    t_world := set_idea iid (record_rejection (record_exposure idea)) w2\<rparr>
      | _ \<Rightarrow> t)"

text \<open>The two enclosing loops: over the snapshot of the spreader's beliefs, and over the spreaders.\<close>

definition spread_idea :: "uuid \<Rightarrow> uuid \<Rightarrow> tick \<Rightarrow> tick" where
  "spread_idea sid iid t =
     (case map_of (ideas (t_world t)) iid of
        None \<Rightarrow> t
      | Some idea \<Rightarrow>
          (case map_of (agents (t_world t)) sid of
             None \<Rightarrow> t
           | Some spreader \<Rightarrow>
               fold (spread_attempt sid iid) (sorted_list_of_set (connections spreader)) t))"

definition spread_from :: "uuid \<Rightarrow> tick \<Rightarrow> tick" where
  "spread_from sid t =
     (case map_of (agents (t_world t)) sid of
        None \<Rightarrow> t
      | Some spreader \<Rightarrow> fold (spread_idea sid) (sorted_list_of_set (beliefs spreader)) t)"

text \<open>
  \<open>random.shuffle\<close>: for \<open>i\<close> from the last index down to 1, exchange the element at \<open>i\<close>
  with the one at an index drawn below \<open>i + 1\<close>.
\<close>

fun shuffle_from :: "nat \<Rightarrow> 'a list \<Rightarrow> env \<Rightarrow> 'a list \<times> env" where
  "shuffle_from 0 xs e = (xs, e)"
| "shuffle_from (Suc i) xs e =
     (let (j, e1) = randbelow (Suc i + 1) e
      in shuffle_from i (xs[Suc i := xs ! j, j := xs ! Suc i]) e1)"

definition shuffle :: "'a list \<Rightarrow> env \<Rightarrow> 'a list \<times> env" where
  "shuffle xs e = shuffle_from (length xs - 1) xs e"

text \<open>The decay pass: every belief of every agent is forgotten when its draw is below the decay rate.\<close>

definition decay_belief :: "uuid \<Rightarrow> uuid \<Rightarrow> tick \<Rightarrow> tick" where
  "decay_belief aid iid t =
     (case map_of (agents (t_world t)) aid of
        None \<Rightarrow> t
      | Some agent \<Rightarrow>
          let (u, e1) = py_random (t_env t);
              t1 = t\<lparr>t_env := e1\<rparr>
          in if u < decay_rate (config (t_world t1))
             then (case forget_idea agent iid of
                     (agent', True) \<Rightarrow>
                       t1\<lparr>t_world := set_agent aid agent' (t_world t1), decays := decays t1 + 1\<rparr>
                   | (agent', False) \<Rightarrow> t1)
             else t1)"

definition decay_agent :: "uuid \<Rightarrow> tick \<Rightarrow> tick" where
  "decay_agent aid t =
     (case map_of (agents (t_world t)) aid of
        None \<Rightarrow> t
      | Some agent \<Rightarrow> fold (decay_belief aid) (sorted_list_of_set (beliefs agent)) t)"

text \<open>
  The result of \<open>run_step\<close>: the error marker, or the statistics of the tick (without the
  wall-clock \<open>duration_ms\<close>).
\<close>

record StepStats =
  st_step :: int
  st_spread_attempts :: int
  st_adoptions :: int
  st_mutations :: int
  st_decays :: int
  st_active_agents :: int

datatype StepResult = StepError pystr | StepOk StepStats

definition active_agents :: "World \<Rightarrow> int" where
  "active_agents w = int (length (filter (\<lambda>(k, a). beliefs a \<noteq> {}) (agents w)))"

definition run_step :: "env \<Rightarrow> World \<Rightarrow> env \<times> World \<times> StepResult" where
  "run_step e w =
     (if status w \<noteq> RUNNING then (e, w, StepError (ascii ''World is not running''))
      else
        let spreaders = map fst (filter (\<lambda>(k, a). beliefs a \<noteq> {}) (agents w));
            (spreaders', e1) = shuffle spreaders e;
            t0 = \<lparr>t_env = e1, t_world = w, spread_attempts = 0, adoptions = 0,
                   mutations = 0, decays = 0\<rparr>;
            t1 = fold spread_from spreaders' t0;
            t2 = fold decay_agent (map fst (agents (t_world t1))) t1;
            w1 = (t_world t2)\<lparr>current_step := current_step (t_world t2) + 1\<rparr>;
            (w2, e2) =
              (case max_steps (config w1) of
                 None \<Rightarrow> (w1, t_env t2)
               | Some m \<Rightarrow>
                   if m \<noteq> 0 \<and> current_step w1 \<ge> m
                   then (let (now, e') = utcnow (t_env t2)
                         in (w1\<lparr>status := COMPLETED, completed_at := Some now\<rparr>, e'))
                   else (w1, t_env t2))
        in (e2, w2, StepOk \<lparr>st_step = current_step w2, st_spread_attempts = spread_attempts t2,
              st_adoptions = adoptions t2, st_mutations = mutations t2, st_decays = decays t2,
              st_active_agents = active_agents w2\<rparr>))"

subsection \<open>Population and network\<close>

text \<open>
  The three library generators are a parameter of the model: \<open>nx c\<close> is the list
  \<open>temp_graph.edges()\<close> of the graph the library returned for the call \<open>c\<close>, a graph on
  the nodes \<open>range(n)\<close>. \<open>py_int\<close> is \<open>int()\<close> of a float, which truncates toward zero,
  and \<open>randint(0, n - 1)\<close> is the draw below \<open>n\<close>.
\<close>

datatype nx_call =
    Barabasi_albert nat int
  | Watts_strogatz nat int real
  | Erdos_renyi nat real

fun nx_nodes :: "nx_call \<Rightarrow> nat" where
  "nx_nodes (Barabasi_albert n m) = n"
| "nx_nodes (Watts_strogatz n k p) = n"
| "nx_nodes (Erdos_renyi n p) = n"

definition py_int :: "real \<Rightarrow> int" where
  "py_int x = (if 0 \<le> x then \<lfloor>x\<rfloor> else \<lceil>x\<rceil>)"

definition geo_attempt :: "(uuid \<times> Agent) list \<Rightarrow> nat \<Rightarrow> nat Graph \<times> env \<Rightarrow> nat Graph \<times> env" where
  "geo_attempt ags i ge =
     (let (g, e) = ge;
          agent_ids = map fst ags;
          n = length agent_ids;
          (j, e1) = randbelow n e
      in if i \<noteq> j
         then (case (map_of ags (agent_ids ! i), map_of ags (agent_ids ! j)) of
                 (Some agent_i, Some agent_j) \<Rightarrow>
                   let (u, e2) = py_random e1
                   in if region (profile agent_i) = region (profile agent_j)
                      then (if u < 0.7 then (add_edge i j g, e2) else (g, e2))
                      else (if u < 0.3 then (add_edge i j g, e2) else (g, e2))
               | _ \<Rightarrow> (g, e1))
         else (g, e1))"

definition geo_local_graph :: "(uuid \<times> Agent) list \<Rightarrow> real \<Rightarrow> env \<Rightarrow> nat Graph \<times> env" where
  "geo_local_graph ags density e =
     (let n = length ags;
          connections_to_make = max 1 (py_int (real n * density))
      in fold (\<lambda>i ge. fold (\<lambda>_. geo_attempt ags i) [0..<nat connections_to_make] ge)
           [0..<n] (map (\<lambda>i. (i, [])) [0..<n], e))"

text \<open>
  The last loop of \<open>_create_network\<close>: every edge of the temporary graph becomes an edge
  between the agents at its two indices, and each of the two agents is told of the other.
\<close>

fun connect_edges :: "uuid list \<Rightarrow> (nat \<times> nat) list \<Rightarrow> World \<Rightarrow> error + World" where
  "connect_edges agent_ids [] w = Inr w"
| "connect_edges agent_ids ((i, j) # es) w =
     (if length agent_ids \<le> i \<or> length agent_ids \<le> j then Inl IndexError
      else
        let agent_i_id = agent_ids ! i;
            agent_j_id = agent_ids ! j;
            w1 = w\<lparr>network := add_edge agent_i_id agent_j_id (network w)\<rparr>
        in (case map_of (agents w1) agent_i_id of
              None \<Rightarrow> Inl (KeyError (uuid_str agent_i_id))
            | Some a \<Rightarrow>
                let w2 = set_agent agent_i_id (add_connection a agent_j_id) w1
                in (case map_of (agents w2) agent_j_id of
                      None \<Rightarrow> Inl (KeyError (uuid_str agent_j_id))
                    | Some b \<Rightarrow>
                        connect_edges agent_ids es
                          (set_agent agent_j_id (add_connection b agent_i_id) w2))))"

definition create_network :: "(nx_call \<Rightarrow> (nat \<times> nat) list) \<Rightarrow> env \<Rightarrow> World \<Rightarrow> env \<times> (error + World)" where
  "create_network nx e w =
     (let agent_ids = map fst (agents w);
          n = length agent_ids;
          density = network_density (config w);
          (temp_edges, e1) =
            (if network_type (config w) = SCALE_FREE
             then (nx (Barabasi_albert n (max 2 (py_int (real n * density / 2)))), e)
             else if network_type (config w) = SMALL_WORLD
             then (nx (Watts_strogatz n (max 4 (py_int (real n * density))) 0.3), e)
             else if network_type (config w) = RANDOM_net
             then (nx (Erdos_renyi n density), e)
             else (let (g, e') = geo_local_graph (agents w) density e in (graph_edges g, e')))
      in (e1, connect_edges agent_ids temp_edges w))"

text \<open>
  The first loop of \<open>initialize_population\<close>: each new agent takes its profile from
  \<open>AgentProfile.random\<close>, its identifier from \<open>uuid4\<close> and the class defaults elsewhere.
\<close>

fun add_agents :: "nat \<Rightarrow> env \<Rightarrow> World \<Rightarrow> World \<times> env" where
  "add_agents 0 e w = (w, e)"
| "add_agents (Suc k) e w =
     (let (p, e1) = random_profile e;
          (aid, e2) = uuid4 e1;
          agent = \<lparr>agent_id = aid, agent_world_id = world_id w, profile = p,
            state = \<lparr>mood = 0.0, susceptibility = 0.5, last_active_step = 0,
              exposure_count = 0, adoption_count = 0\<rparr>,
            connections = {}, beliefs = {}, idea_exposures = Map.empty, memory_refs = []\<rparr>;
          w1 = set_agent (agent_id agent) agent w;
          w2 = w1\<lparr>network := add_node (agent_id agent) (network w1)\<rparr>
      in add_agents k e2 w2)"

definition initialize_population ::
  "(nx_call \<Rightarrow> (nat \<times> nat) list) \<Rightarrow> env \<Rightarrow> World \<Rightarrow> env \<times> (error + World)" where
  "initialize_population nx e w =
     (let (w1, e1) = add_agents (nat (population_size (config w))) e w
      in create_network nx e1 w1)"

section \<open>Simulation manager (engine/manager.py)\<close>

text \<open>
  The manager's control operations. \<open>world_tasks\<close> is the set of worlds for which a loop
  task is registered. \<open>start_world\<close> and \<open>stop_world\<close> are taken up to their return; the
  ticks of a loop task are applications of \<open>run_step\<close> between the operations. In
  \<open>step_world\<close>, which sleeps between its sub-steps, what other tasks do meanwhile is a
  parameter.
\<close>

record SimulationManager =
  max_concurrent_worlds :: int
  worlds :: "(uuid \<times> World) list"
  world_tasks :: "uuid set"
  manager_running :: bool

definition start_world :: "env \<Rightarrow> SimulationManager \<Rightarrow> uuid \<Rightarrow> env \<times> SimulationManager \<times> bool" where
  "start_world e m wid =
     (case map_of (worlds m) wid of
        None \<Rightarrow> (e, m, False)
      | Some world \<Rightarrow>
          if status world = RUNNING then (e, m, True)
          else
            let (world', e1) = start e world
            in (e1, m\<lparr>worlds := AList.update wid world' (worlds m),
                      world_tasks := insert wid (world_tasks m)\<rparr>, True))"

definition stop_world :: "SimulationManager \<Rightarrow> uuid \<Rightarrow> SimulationManager \<times> bool" where
  "stop_world m wid =
     (case map_of (worlds m) wid of
        None \<Rightarrow> (m, False)
      | Some world \<Rightarrow>
          (m\<lparr>worlds := AList.update wid (pause world) (worlds m),
             world_tasks := world_tasks m - {wid}\<rparr>, True))"

text \<open>
  \<open>step_world\<close> awaits \<open>asyncio.sleep(0.001)\<close> after every sub-step, and there other tasks
  run: the loop task of the world, \<open>stop_world\<close>, \<open>inject_idea\<close>. What they do to this
  world (and to the environment) during the sleep after sub-step \<open>k\<close> is the parameter
  \<open>others k\<close>; the identity stands for a call during which no other task touches the
  world. \<open>step_loop\<close> is the loop of \<open>step_world\<close>, started at sub-step \<open>k\<close>.
\<close>

fun step_loop ::
  "(nat \<Rightarrow> env \<times> World \<Rightarrow> env \<times> World) \<Rightarrow> nat \<Rightarrow> nat \<Rightarrow> env \<Rightarrow> World
     \<Rightarrow> env \<times> World \<times> StepResult list" where
  "step_loop others k 0 e w = (e, w, [])"
| "step_loop others k (Suc n) e w =
     (let (e1, w1, result) = run_step e w;
          (e1', w1') = others k (e1, w1);
          (e2, w2, results) = step_loop others (Suc k) n e1' w1'
      in (e2, w2, result # results))"

definition step_world ::
  "env \<Rightarrow> SimulationManager \<Rightarrow> uuid \<Rightarrow> int \<Rightarrow> (nat \<Rightarrow> env \<times> World \<Rightarrow> env \<times> World)
     \<Rightarrow> env \<times> SimulationManager \<times> StepResult list" where
  "step_world e m wid steps others =
     (case map_of (worlds m) wid of
        None \<Rightarrow> (e, m, [StepError (ascii ''World not found'')])
      | Some world \<Rightarrow>
          let original_status = status world;
              world1 = world\<lparr>status := RUNNING\<rparr>;
              (e1, world2, results) = step_loop others 0 (nat steps) e world1;
              world3 = (if original_status = PAUSED then world2\<lparr>status := PAUSED\<rparr> else world2)
          in (e1, m\<lparr>worlds := AList.update wid world3 (worlds m)\<rparr>, results))"

text \<open>The three operations \<open>start_world; stop_world; start_world\<close> on one world, in sequence.\<close>

definition start_stop_start :: "env \<Rightarrow> SimulationManager \<Rightarrow> uuid \<Rightarrow> SimulationManager" where
  "start_stop_start e m wid =
     (let (e1, m1, ok1) = start_world e m wid;
          (m2, ok2) = stop_world m1 wid;
          (e3, m3, ok3) = start_world e1 m2 wid
      in m3)"

section \<open>Sample values\<close>

text \<open>
  A small world on which the theorems below are instantiated: agent 11 believes idea 7,
  agent 12 believes idea 8 and agent 13 believes nothing; 12 is connected to 11 and to 13.
  Every agent has influence and openness 1 and every idea virality and emotional valence
  1, complexity 0 and no tags, so that every spread probability is 0.3.
\<close>

definition demo_profile :: AgentProfile where
  "demo_profile = \<lparr>age_group = ascii ''25-34'', interests = [ascii ''tech''],
     region = ascii ''NA'', trust_threshold = 0.5, openness = 1, influence = 1\<rparr>"

definition demo_env :: env where
  "demo_env = \<lparr>random_vals = (\<lambda>k. 0), random_calls = 0, int_vals = (\<lambda>k. 1), int_calls = 0,
     uuid_vals = (\<lambda>k. 100 + of_nat k), uuid_calls = 0, clock_vals = (\<lambda>k. k), clock_calls = 0,
     profile_vals = (\<lambda>k. demo_profile), profile_calls = 0\<rparr>"

definition demo_idea :: "uuid \<Rightarrow> Idea" where
  "demo_idea k = \<lparr>idea_id = k, idea_creator_id = 2, idea_world_id = 1,
     idea_text = ascii ''hello'', tags = [], media_refs = [],
     target = \<lparr>age_groups = [], target_interests = [], target_regions = []\<rparr>,
     virality_score = 1, emotional_valence = 1, complexity = 0, parent_id = None,
     mutation_type = None, generation = 0, mutation_count = 0, mutation_budget = 3,
     embedding_id = None, adopter_count = 0, reach = 0, rejection_count = 0,
     idea_created_at = 0\<rparr>"

definition demo_agent :: "uuid \<Rightarrow> uuid set \<Rightarrow> uuid set \<Rightarrow> Agent" where
  "demo_agent k cs bs = \<lparr>agent_id = k, agent_world_id = 1, profile = demo_profile,
     state = \<lparr>mood = 0.0, susceptibility = 0.5, last_active_step = 0,
       exposure_count = 0, adoption_count = 0\<rparr>,
     connections = cs, beliefs = bs, idea_exposures = Map.empty, memory_refs = []\<rparr>"

definition demo_config :: WorldConfig where
  "demo_config = \<lparr>population_size = 3, network_type = GEO_LOCAL, network_density = 0.5,
     mutation_rate = 0, decay_rate = 0, time_step_ms = 100, max_steps = None,
     regions = [ascii ''NA''], region_weights = [1]\<rparr>"

definition demo_world :: World where
  "demo_world = \<lparr>world_id = 1, creator_id = 2, name = ascii ''demo'', description = [],
     config = demo_config, is_public = True, status = RUNNING, current_step = 0,
     created_at = 0, started_at = Some 0, completed_at = None,
     agents = [(11, demo_agent 11 {12} {7}), (12, demo_agent 12 {11, 13} {8}),
               (13, demo_agent 13 {12} {})],
     ideas = [(7, demo_idea 7), (8, demo_idea 8)],
     network = [(11, [12]), (12, [11, 13]), (13, [12])],
     recent_events = [], max_recent_events = 1000,
     total_spread_events = 0, total_adoptions = 0, total_mutations = 0\<rparr>"

text \<open>An idea in a world of its own, and an environment whose integer draws select \<open>MEMEIFY\<close>.\<close>

definition meme_idea :: Idea where
  "meme_idea = (demo_idea 7)\<lparr>virality_score := 0.2, emotional_valence := 0.5\<rparr>"

definition meme_world :: World where
  "meme_world = demo_world\<lparr>agents := [], ideas := [(7, meme_idea)]\<rparr>"

definition meme_env :: env where
  "meme_env = demo_env\<lparr>int_vals := (\<lambda>k. 4)\<rparr>"

text \<open>A manager holding one world without agents, created and not yet started, that completes at step 1.\<close>

definition step_manager :: SimulationManager where
  "step_manager = \<lparr>max_concurrent_worlds = 10,
     worlds = [(1, meme_world\<lparr>status := CREATED, config := demo_config\<lparr>max_steps := Some 1\<rparr>\<rparr>)],
     world_tasks = {}, manager_running = True\<rparr>"

text \<open>
  Two connected agents, of which the first believes idea 7, and an environment whose
  draws of \<open>random()\<close> are all 0.9, above every spread probability.
\<close>

definition pair_world :: World where
  "pair_world = demo_world\<lparr>agents := [(11, demo_agent 11 {12} {7}), (12, demo_agent 12 {11} {})],
     ideas := [(7, demo_idea 7)], network := [(11, [12]), (12, [11])]\<rparr>"

definition reject_env :: env where
  "reject_env = demo_env\<lparr>random_vals := (\<lambda>k. 0.9)\<rparr>"

text \<open>
  A library generator that returns the path 0 - 1 - 2 on three nodes, and a world as its
  constructor leaves it, configured for the random topology and three agents.
\<close>

definition demo_nx :: "nx_call \<Rightarrow> (nat \<times> nat) list" where
  "demo_nx c = (if nx_nodes c = 3 then [(0, 1), (1, 2)] else [])"

definition fresh_world :: World where
  "fresh_world = fst (new_world demo_env 1 2 (ascii ''demo'') (demo_config\<lparr>network_type := RANDOM_net\<rparr>) [] True)"

text \<open>An agent that has been exposed three times to idea 7.\<close>

definition exposed_agent :: Agent where
  "exposed_agent = (demo_agent 11 {12} {7})\<lparr>idea_exposures := [7 \<mapsto> 3]\<rparr>"

section \<open>What a tick leaves unchanged\<close>

text \<open>
  \<open>world_frame\<close> collects the parts of a world that the propagation and decay passes never
  write: configuration, status, step counter, graph, event capacity and, for every agent
  in dictionary order, its key, identifier, connections and profile.
  \<open>reaches_max_steps w c\<close> is the completion test of \<open>run_step\<close> at step counter \<open>c\<close>.
\<close>

definition agent_shape :: "uuid \<times> Agent \<Rightarrow> uuid \<times> uuid \<times> uuid set \<times> AgentProfile" where
  "agent_shape ka = (fst ka, agent_id (snd ka), connections (snd ka), profile (snd ka))"

definition world_frame ::
  "World \<Rightarrow> WorldConfig \<times> WorldStatus \<times> int \<times> uuid Graph \<times> int \<times> (uuid \<times> uuid \<times> uuid set \<times> AgentProfile) list" where
  "world_frame w = (config w, status w, current_step w, network w, max_recent_events w,
     map agent_shape (agents w))"

definition reaches_max_steps :: "World \<Rightarrow> int \<Rightarrow> bool" where
  "reaches_max_steps w c = (case max_steps (config w) of None \<Rightarrow> False | Some m \<Rightarrow> m \<noteq> 0 \<and> m \<le> c)"

text \<open>
  \<open>idea_standing i w c\<close> is what agent \<open>c\<close> of the world has to do with idea \<open>i\<close>: how
  often it was exposed to it and whether it believes it. \<open>initial_spreader w aid\<close> says
  that \<open>aid\<close> identifies an agent of \<open>w\<close> whose belief set is not empty.
  \<open>turn_events_ok w0 sender is w\<close> is the invariant of one spreader's turn started in
  \<open>w0\<close>: the frame is kept, and every event recorded since is sent by \<open>sender\<close> and about
  an idea of \<open>is\<close>.
\<close>

definition idea_standing :: "uuid \<Rightarrow> World \<Rightarrow> uuid \<Rightarrow> (int option \<times> bool) option" where
  "idea_standing i w c = map_option (\<lambda>a. (idea_exposures a i, i \<in> beliefs a)) (map_of (agents w) c)"



section \<open>The network invariant\<close>

text \<open>
  \<open>adjacent g u v\<close>: \<open>v\<close> is among the neighbours of \<open>u\<close> in the graph; every edge that
  \<open>graph_edges\<close> reports is such a pair. \<open>simple_on n g\<close>: the graph has nodes below \<open>n\<close>
  only and no loop. \<open>connections_symmetric w\<close> is the invariant of claim C9: for every
  edge \<open>(u, v)\<close> of the world's graph both ends are agents, \<open>v\<close> is in the connections of
  \<open>u\<close> and \<open>u\<close> in those of \<open>v\<close>, and no agent is in its own connections. \<open>net_inv\<close>
  is the stronger form kept while the network is built: the keys of \<open>agents\<close> are
  distinct, every agent is stored under its own identifier, and the property holds for
  every pair of neighbours.
\<close>

definition adjacent :: "'n Graph \<Rightarrow> 'n \<Rightarrow> 'n \<Rightarrow> bool" where
  "adjacent g u v = (\<exists>ns. (u, ns) \<in> set g \<and> v \<in> set ns)"

definition simple_on :: "nat \<Rightarrow> nat Graph \<Rightarrow> bool" where
  "simple_on n g = (\<forall>u v. adjacent g u v \<longrightarrow> u < n \<and> v < n \<and> u \<noteq> v)"

definition net_inv :: "World \<Rightarrow> bool" where
  "net_inv w =
     (distinct (map fst (agents w)) \<and>
      (\<forall>k a. map_of (agents w) k = Some a \<longrightarrow> agent_id a = k \<and> k \<notin> connections a) \<and>
      (\<forall>u v. adjacent (network w) u v \<longrightarrow>
         (\<exists>a b. map_of (agents w) u = Some a \<and> map_of (agents w) v = Some b \<and>
            v \<in> connections a \<and> u \<in> connections b)))"

definition connections_symmetric :: "World \<Rightarrow> bool" where
  "connections_symmetric w =
     ((\<forall>(u, v) \<in> set (graph_edges (network w)).
         \<exists>a b. map_of (agents w) u = Some a \<and> map_of (agents w) v = Some b \<and>
           v \<in> connections a \<and> u \<in> connections b) \<and>
      (\<forall>(k, a) \<in> set (agents w). agent_id a \<notin> connections a))"

section \<open>Properties of the idea and agent models\<close>

text \<open>
  C6. The spread probability of an idea is
  \<open>virality_score * (1 - 0.5 * complexity) * sender_influence * receiver_openness
   * relevance * trust_factor * (0.5 + 0.5 * emotional_valence)\<close>, clamped to the interval from 0 to 1,
  for every idea and all four inputs.
\<close>

theorem spread_probability_formula:
  "calculate_spread_probability i sender_influence receiver_openness relevance trust_factor =
     max 0 (min 1 (virality_score i * (1 - 0.5 * complexity i) * sender_influence
       * receiver_openness * relevance * trust_factor * (0.5 + 0.5 * emotional_valence i)))"
  by (simp add: calculate_spread_probability_def effective_virality_def Let_def mult.commute)

text \<open>
  C7. The relevance of a tag list to an agent is 0.3 when the tag list or the agent's interest
  list is empty, 0.2 when they share no tag, and otherwise 0.2 plus 0.8 times the number of
  shared tags divided by the larger of the two list lengths.
\<close>

theorem idea_relevance_formula:
  "calculate_idea_relevance a ts =
     (if ts = [] \<or> interests (profile a) = [] then 0.3
      else if set ts \<inter> set (interests (profile a)) = {} then 0.2
      else 0.2 + 0.8 * real (card (set ts \<inter> set (interests (profile a))))
             / real (max (length ts) (length (interests (profile a)))))"
  by (simp add: calculate_idea_relevance_def Let_def)

text \<open>
  C8. \<open>create_mutation\<close> fails, with the \<open>ValueError\<close> of an exhausted budget, exactly when
  \<open>mutation_count\<close> has reached \<open>mutation_budget\<close>, and then leaves the parent (and the
  environment) unchanged. Otherwise it adds one to the parent's \<open>mutation_count\<close> and
  returns a mutant whose identifier is the next one drawn by \<open>uuid4\<close>, whose generation is
  the parent's plus one, whose parent is the parent, whose virality and emotional valence
  are the parent's plus the deltas clamped to the interval from 0 to 1, and which inherits
  tags, media references, target, complexity and budget. So a parent with
  \<open>0 \<le> mutation_count \<le> mutation_budget\<close> keeps that bound, and its mutant has it too.
\<close>

theorem create_mutation_budget:
  "(case create_mutation e i k t dv de of (e', i', r) \<Rightarrow>
      ((\<exists>err. r = Inl err) \<longleftrightarrow> mutation_budget i \<le> mutation_count i) \<and>
      (mutation_budget i \<le> mutation_count i \<longrightarrow>
         r = Inl (ValueError (ascii ''Idea has exceeded mutation budget'')) \<and> i' = i \<and> e' = e) \<and>
      (mutation_count i < mutation_budget i \<longrightarrow>
         i' = i\<lparr>mutation_count := mutation_count i + 1\<rparr> \<and>
         (\<exists>m. r = Inr m \<and> idea_id m = fst (uuid4 e) \<and> generation m = generation i + 1 \<and>
            parent_id m = Some (idea_id i) \<and> mutation_type m = Some k \<and> idea_text m = t \<and>
            virality_score m = max 0 (min 1 (virality_score i + dv)) \<and>
            emotional_valence m = max 0 (min 1 (emotional_valence i + de)) \<and>
            tags m = tags i \<and> media_refs m = media_refs i \<and> target m = target i \<and>
            complexity m = complexity i \<and> mutation_budget m = mutation_budget i \<and>
            mutation_count m = 0)) \<and>
      (0 \<le> mutation_count i \<and> mutation_count i \<le> mutation_budget i \<longrightarrow>
         0 \<le> mutation_count i' \<and> mutation_count i' \<le> mutation_budget i' \<and>
         (\<forall>m. r = Inr m \<longrightarrow> 0 \<le> mutation_count m \<and> mutation_count m \<le> mutation_budget m)))"
  by (auto simp: create_mutation_def can_mutate_def uuid4_def utcnow_def Let_def split: prod.splits)

theorem create_mutation_budget_witness:
  "mutation_count (demo_idea 7) < mutation_budget (demo_idea 7) \<and>
   0 \<le> mutation_count (demo_idea 7) \<and>
   mutation_count (fst (snd (create_mutation demo_env (demo_idea 7) MEMEIFY (ascii ''x'') 0.1 0))) = 1 \<and>
   mutation_budget ((demo_idea 7)\<lparr>mutation_count := 3\<rparr>)
     \<le> mutation_count ((demo_idea 7)\<lparr>mutation_count := 3\<rparr>) \<and>
   snd (snd (create_mutation demo_env ((demo_idea 7)\<lparr>mutation_count := 3\<rparr>) MEMEIFY (ascii ''x'') 0.1 0))
     = Inl (ValueError (ascii ''Idea has exceeded mutation budget''))"
  using create_mutation_budget [where e = demo_env and i = "demo_idea 7" and k = MEMEIFY
      and t = "ascii ''x''" and dv = "0.1" and de = 0]
    create_mutation_budget [where e = demo_env and i = "(demo_idea 7)\<lparr>mutation_count := 3\<rparr>"
      and k = MEMEIFY and t = "ascii ''x''" and dv = "0.1" and de = 0]
  by (auto simp: demo_idea_def split: prod.splits)

section \<open>Properties of the mutation trigger\<close>

text \<open>
  C2 fails as stated: for \<open>MEMEIFY\<close> the trigger leaves the emotional valence as it is
  (0.5 stays 0.5, where the table's +0.05 gives 0.55) and ends the text with three full
  stops, a space and the fire sign, not with the one-character ellipsis.
\<close>

theorem memeify_table_counterexample:
  "map_option (\<lambda>m. (mutation_type m, virality_score m, emotional_valence m, idea_text m))
     (snd (snd (trigger_mutation meme_env meme_world 7)))
     = Some (Some MEMEIFY, 0.3, 0.5, ascii ''[Meme] hello... '' @ [128293]) \<and>
   emotional_valence meme_idea + 0.05 = 0.55 \<and>
   ascii ''[Meme] '' @ take 50 (idea_text meme_idea) @ [8230, 32, 128293]
     \<noteq> ascii ''[Meme] hello... '' @ [128293]"
  by (simp add: trigger_mutation_def create_mutation_def randbelow_def mutation_types_def
        uuid4_def utcnow_def set_idea_def Let_def can_mutate_def meme_env_def meme_world_def
        meme_idea_def demo_env_def demo_world_def demo_idea_def ascii_def split: prod.splits)

text \<open>
  C2, amended. For an idea of the catalogue that can still mutate, and for the kind the
  integer draw selects from \<open>list(MutationType)\<close>, when that kind is not \<open>LOCALIZE\<close>:
  the trigger returns a mutant of that kind, entered in the catalogue, whose virality and
  emotional valence are the parent's plus the deltas below, clamped to the interval from 0
  to 1, and whose text is as below.
  \<^item> \<open>SIMPLIFY\<close>: +0.05 and 0; \<open>"[Simplified] " + text[:100] + "..."\<close>.
  \<^item> \<open>EMOTIONALIZE\<close>: +0.02 and +0.10; \<open>"[Emotional] " + text\<close>.
  \<^item> \<open>POLARIZE\<close>: +0.08 and +0.15; \<open>"[Polarized] " + text\<close>.
  \<^item> \<open>MEMEIFY\<close>: +0.10 and 0; \<open>"[Meme] " + text[:50] + "... "\<close> and the fire sign
    (code point 128293).
  \<^item> \<open>RANDOM\<close>: \<open>-0.05 + 0.15 * u\<close> for the next two draws \<open>u\<close> of \<open>random()\<close>;
    \<open>"[Variant] " + text\<close>.
\<close>

theorem trigger_mutation_table:
  assumes "map_of (ideas w) key = Some idea" and "can_mutate idea"
    and "kind = mutation_types ! (int_vals e (int_calls e) mod 6)"
    and "kind \<noteq> LOCALIZE"
  shows "\<exists>e' w' m. trigger_mutation e w key = (e', w', Some m) \<and>
     map_of (ideas w') (idea_id m) = Some m \<and>
     mutation_type m = Some kind \<and> parent_id m = Some (idea_id idea) \<and>
     (kind = SIMPLIFY \<longrightarrow>
        virality_score m = max 0 (min 1 (virality_score idea + 0.05)) \<and>
        emotional_valence m = max 0 (min 1 (emotional_valence idea + 0)) \<and>
        idea_text m = ascii ''[Simplified] '' @ take 100 (idea_text idea) @ ascii ''...'') \<and>
     (kind = EMOTIONALIZE \<longrightarrow>
        virality_score m = max 0 (min 1 (virality_score idea + 0.02)) \<and>
        emotional_valence m = max 0 (min 1 (emotional_valence idea + 0.10)) \<and>
        idea_text m = ascii ''[Emotional] '' @ idea_text idea) \<and>
     (kind = POLARIZE \<longrightarrow>
        virality_score m = max 0 (min 1 (virality_score idea + 0.08)) \<and>
        emotional_valence m = max 0 (min 1 (emotional_valence idea + 0.15)) \<and>
        idea_text m = ascii ''[Polarized] '' @ idea_text idea) \<and>
     (kind = MEMEIFY \<longrightarrow>
        virality_score m = max 0 (min 1 (virality_score idea + 0.10)) \<and>
        emotional_valence m = max 0 (min 1 (emotional_valence idea + 0)) \<and>
        idea_text m = ascii ''[Meme] '' @ take 50 (idea_text idea) @ ascii ''... '' @ [128293]) \<and>
     (kind = RANDOM \<longrightarrow>
        virality_score m = max 0 (min 1 (virality_score idea
          + (- 0.05 + 0.15 * random_vals e (random_calls e)))) \<and>
        emotional_valence m = max 0 (min 1 (emotional_valence idea
          + (- 0.05 + 0.15 * random_vals e (random_calls e + 1)))) \<and>
        idea_text m = ascii ''[Variant] '' @ idea_text idea)"
proof (cases kind)
  case SIMPLIFY
  with assms show ?thesis
    by (simp add: trigger_mutation_def create_mutation_def randbelow_def mutation_types_def
        uuid4_def utcnow_def set_idea_def Let_def update_Some_unfold split: prod.splits)
next
  case EMOTIONALIZE
  with assms show ?thesis
    by (simp add: trigger_mutation_def create_mutation_def randbelow_def mutation_types_def
        uuid4_def utcnow_def set_idea_def Let_def update_Some_unfold split: prod.splits)
next
  case LOCALIZE
  with assms show ?thesis by simp
next
  case POLARIZE
  with assms show ?thesis
    by (simp add: trigger_mutation_def create_mutation_def randbelow_def mutation_types_def
        uuid4_def utcnow_def set_idea_def Let_def update_Some_unfold split: prod.splits)
next
  case MEMEIFY
  with assms show ?thesis
    by (simp add: trigger_mutation_def create_mutation_def randbelow_def mutation_types_def
        uuid4_def utcnow_def set_idea_def Let_def update_Some_unfold split: prod.splits)
next
  case RANDOM
  with assms show ?thesis
    by (simp add: trigger_mutation_def create_mutation_def randbelow_def mutation_types_def
        uuid4_def utcnow_def set_idea_def Let_def update_Some_unfold uniform_def py_random_def
        split: prod.splits)
qed

theorem trigger_mutation_table_witness:
  "map_of (ideas meme_world) 7 = Some meme_idea \<and> can_mutate meme_idea \<and>
   mutation_types ! (int_vals meme_env (int_calls meme_env) mod 6) = MEMEIFY \<and>
   MEMEIFY \<noteq> LOCALIZE \<and>
   (\<exists>e' w' m. trigger_mutation meme_env meme_world 7 = (e', w', Some m) \<and>
      virality_score m = 0.3 \<and> emotional_valence m = 0.5 \<and>
      idea_text m = ascii ''[Meme] hello... '' @ [128293])"
proof -
  have h1: "map_of (ideas meme_world) 7 = Some meme_idea"
    by (simp add: meme_world_def)
  have h2: "can_mutate meme_idea"
    by (simp add: can_mutate_def meme_idea_def demo_idea_def)
  have h3: "MEMEIFY = mutation_types ! (int_vals meme_env (int_calls meme_env) mod 6)"
    by (simp add: meme_env_def demo_env_def mutation_types_def)
  have h4: "MEMEIFY \<noteq> LOCALIZE" by simp
  from trigger_mutation_table [OF h1 h2 h3 h4]
  obtain e' w' m where "trigger_mutation meme_env meme_world 7 = (e', w', Some m)"
    and "virality_score m = max 0 (min 1 (virality_score meme_idea + 0.10))"
    and "emotional_valence m = max 0 (min 1 (emotional_valence meme_idea + 0))"
    and "idea_text m = ascii ''[Meme] '' @ take 50 (idea_text meme_idea) @ ascii ''... '' @ [128293]"
    by auto
  then have "trigger_mutation meme_env meme_world 7 = (e', w', Some m) \<and>
      virality_score m = 0.3 \<and> emotional_valence m = 0.5 \<and>
      idea_text m = ascii ''[Meme] hello... '' @ [128293]"
    by (simp add: meme_idea_def demo_idea_def ascii_def)
  with h1 h2 h3 h4 show ?thesis by metis
qed

section \<open>Frame lemmas of the tick\<close>

lemma map_update_same_shape:
  "map_of xs k = Some a \<Longrightarrow> f (k, a') = f (k, a) \<Longrightarrow> map f (AList.update k a' xs) = map f xs"
  by (induction xs) (auto split: if_splits)

lemma set_agent_frame:
  "map_of (agents w) k = Some a \<Longrightarrow> agent_id a' = agent_id a \<Longrightarrow>
   connections a' = connections a \<Longrightarrow> profile a' = profile a \<Longrightarrow>
   world_frame (set_agent k a' w) = world_frame w"
  by (simp add: world_frame_def set_agent_def map_update_same_shape agent_shape_def)

lemma set_idea_frame [simp]: "world_frame (set_idea k i w) = world_frame w"
  by (simp add: world_frame_def set_idea_def)

lemma set_idea_agents [simp]: "agents (set_idea k i w) = agents w"
  by (simp add: set_idea_def)

lemma record_event_frame [simp]: "world_frame (record_event ev w) = world_frame w"
  by (simp add: world_frame_def record_event_def Let_def)

lemma trigger_mutation_frame:
  "world_frame (fst (snd (trigger_mutation e w k))) = world_frame w"
  by (simp add: trigger_mutation_def Let_def split: option.splits prod.splits sum.splits)

lemma expose_shape [simp]:
  "agent_id (fst (expose_to_idea a i)) = agent_id a"
  "connections (fst (expose_to_idea a i)) = connections a"
  "profile (fst (expose_to_idea a i)) = profile a"
  by (simp_all add: expose_to_idea_def Let_def)

lemma adopt_shape [simp]:
  "agent_id (fst (adopt_idea a i)) = agent_id a"
  "connections (fst (adopt_idea a i)) = connections a"
  "profile (fst (adopt_idea a i)) = profile a"
  by (simp_all add: adopt_idea_def Let_def)

lemma forget_shape [simp]:
  "agent_id (fst (forget_idea a i)) = agent_id a"
  "connections (fst (forget_idea a i)) = connections a"
  "profile (fst (forget_idea a i)) = profile a"
  by (simp_all add: forget_idea_def Let_def)

lemma total_adoptions_frame [simp]:
  "world_frame (w\<lparr>total_adoptions := x\<rparr>) = world_frame w"
  "world_frame (w\<lparr>total_mutations := y\<rparr>) = world_frame w"
  by (simp_all add: world_frame_def)

lemma map_of_set_agent:
  "map_of (agents (set_agent k a w)) k' = (if k' = k then Some a else map_of (agents w) k')"
  by (simp add: set_agent_def update_conv')

lemma trigger_mutation_frame':
  "trigger_mutation e w k = (e', w', r) \<Longrightarrow> world_frame w' = world_frame w"
  using trigger_mutation_frame [of e w k] by simp

lemma spread_attempt_frame:
  "world_frame (t_world (spread_attempt sid iid cid t)) = world_frame (t_world t)"
  unfolding spread_attempt_def Let_def
  by (auto split: option.splits prod.splits simp: set_agent_frame map_of_set_agent
      dest!: trigger_mutation_frame')

lemma fold_frame:
  assumes "\<And>x t. world_frame (t_world (f x t)) = world_frame (t_world t)"
  shows "world_frame (t_world (fold f xs t)) = world_frame (t_world t)"
  by (induction xs arbitrary: t) (simp_all add: assms)

lemma spread_idea_frame:
  "world_frame (t_world (spread_idea sid iid t)) = world_frame (t_world t)"
  by (simp add: spread_idea_def fold_frame spread_attempt_frame split: option.splits)

lemma spread_from_frame:
  "world_frame (t_world (spread_from sid t)) = world_frame (t_world t)"
  by (simp add: spread_from_def fold_frame spread_idea_frame split: option.splits)

lemma decay_belief_frame:
  "world_frame (t_world (decay_belief aid iid t)) = world_frame (t_world t)"
  unfolding decay_belief_def Let_def
  by (auto split: option.splits prod.splits bool.splits simp: set_agent_frame forget_idea_def)

lemma decay_agent_frame:
  "world_frame (t_world (decay_agent aid t)) = world_frame (t_world t)"
  by (simp add: decay_agent_def fold_frame decay_belief_frame split: option.splits)

lemma run_step_running:
  assumes "status w = RUNNING"
  shows "status (fst (snd (run_step e w))) =
           (if reaches_max_steps w (current_step w + 1) then COMPLETED else RUNNING)"
    and "current_step (fst (snd (run_step e w))) = current_step w + 1"
    and "config (fst (snd (run_step e w))) = config w"
    and "network (fst (snd (run_step e w))) = network w"
    and "map agent_shape (agents (fst (snd (run_step e w)))) = map agent_shape (agents w)"
proof -
  obtain sp e1 where sh: "shuffle (map fst (filter (\<lambda>(k, a). beliefs a \<noteq> {}) (agents w))) e = (sp, e1)"
    by (cases "shuffle (map fst (filter (\<lambda>(k, a). beliefs a \<noteq> {}) (agents w))) e")
  define t0 where "t0 = \<lparr>t_env = e1, t_world = w, spread_attempts = 0, adoptions = 0,
                   mutations = 0, decays = 0\<rparr>"
  define t1 where "t1 = fold spread_from sp t0"
  define t2 where "t2 = fold decay_agent (map fst (agents (t_world t1))) t1"
  have f: "world_frame (t_world t2) = world_frame w"
    by (simp add: t2_def t1_def t0_def fold_frame decay_agent_frame spread_from_frame)
  define w1 where "w1 = (t_world t2)\<lparr>current_step := current_step (t_world t2) + 1\<rparr>"
  have c: "config w1 = config w" "current_step w1 = current_step w + 1" "status w1 = RUNNING"
    "network w1 = network w" "map agent_shape (agents w1) = map agent_shape (agents w)"
    using f assms by (simp_all add: w1_def world_frame_def)
  have rs: "fst (snd (run_step e w)) =
      (if reaches_max_steps w (current_step w + 1)
       then w1\<lparr>status := COMPLETED, completed_at := Some (fst (utcnow (t_env t2)))\<rparr> else w1)"
    using assms sh c(1,2)
    unfolding run_step_def Let_def reaches_max_steps_def w1_def t2_def t1_def t0_def
    by (simp split: option.splits prod.splits)
  show "status (fst (snd (run_step e w))) =
           (if reaches_max_steps w (current_step w + 1) then COMPLETED else RUNNING)"
    by (simp add: rs c)
  show "current_step (fst (snd (run_step e w))) = current_step w + 1"
    by (simp add: rs c)
  show "config (fst (snd (run_step e w))) = config w"
    by (simp add: rs c)
  show "network (fst (snd (run_step e w))) = network w"
    by (simp add: rs c)
  show "map agent_shape (agents (fst (snd (run_step e w)))) = map agent_shape (agents w)"
    by (simp add: rs c)
qed

lemma run_step_not_running:
  "status w \<noteq> RUNNING \<Longrightarrow> fst (snd (run_step e w)) = w"
  by (simp add: run_step_def)

lemma step_loop_not_running:
  "status w \<noteq> RUNNING \<Longrightarrow> fst (snd (step_loop (\<lambda>k s. s) k n e w)) = w"
proof (induction n arbitrary: e k)
  case 0
  show ?case by simp
next
  case (Suc n)
  have "run_step e w = (e, w, StepError (ascii ''World is not running''))"
    using Suc.prems by (simp add: run_step_def)
  moreover have "fst (snd (step_loop (\<lambda>k s. s) (Suc k) n e w)) = w"
    by (rule Suc.IH [OF Suc.prems])
  ultimately show ?case
    by (cases "step_loop (\<lambda>k s. s) (Suc k) n e w") auto
qed

lemma step_loop_running:
  assumes "status w = RUNNING"
  shows "status (fst (snd (step_loop (\<lambda>k s. s) k n e w))) =
           (if 1 \<le> n \<and> reaches_max_steps w (current_step w + int n) then COMPLETED else RUNNING)"
  using assms
proof (induction n arbitrary: e w k)
  case 0
  then show ?case by simp
next
  case (Suc n)
  obtain e1 w1 r where rs: "run_step e w = (e1, w1, r)"
    by (cases "run_step e w") auto
  have w1: "w1 = fst (snd (run_step e w))" by (simp add: rs)
  have st: "status w1 = (if reaches_max_steps w (current_step w + 1) then COMPLETED else RUNNING)"
    and cs: "current_step w1 = current_step w + 1" and cf: "config w1 = config w"
    using run_step_running [OF Suc.prems, of e] by (simp_all add: w1)
  have fin: "fst (snd (step_loop (\<lambda>k s. s) k (Suc n) e w))
               = fst (snd (step_loop (\<lambda>k s. s) (Suc k) n e1 w1))"
    by (simp add: rs split: prod.splits)
  show ?case
  proof (cases "reaches_max_steps w (current_step w + 1)")
    case True
    then have "status w1 \<noteq> RUNNING" by (simp add: st)
    then have "fst (snd (step_loop (\<lambda>k s. s) (Suc k) n e1 w1)) = w1"
      by (rule step_loop_not_running)
    moreover have "reaches_max_steps w (current_step w + int (Suc n))"
      using True by (auto simp: reaches_max_steps_def split: option.splits)
    ultimately show ?thesis unfolding fin using True by (simp add: st)
  next
    case False
    then have run: "status w1 = RUNNING" by (simp add: st)
    have eq: "reaches_max_steps w1 (current_step w1 + int n) = reaches_max_steps w (current_step w + int (Suc n))"
      by (simp add: reaches_max_steps_def cf cs add.commute add.left_commute)
    have ih: "status (fst (snd (step_loop (\<lambda>k s. s) (Suc k) n e1 w1))) =
           (if 1 \<le> n \<and> reaches_max_steps w1 (current_step w1 + int n) then COMPLETED else RUNNING)"
      by (rule Suc.IH [OF run])
    show ?thesis
    proof (cases "n = 0")
      case True
      with False run show ?thesis unfolding fin by simp
    next
      case n: False
      then have "1 \<le> n" by simp
      then show ?thesis
        unfolding fin using ih eq by simp
    qed
  qed
qed

section \<open>Properties of the manager\<close>

text \<open>
  C10 fails as stated: a created world whose \<open>max_steps\<close> is 1 is left \<open>COMPLETED\<close>, not
  \<open>RUNNING\<close>, by \<open>step_world\<close> with one step, also when no other task touches the world
  during the call.
\<close>

theorem step_world_completed_counterexample:
  "map_option status (map_of (worlds step_manager) 1) = Some CREATED \<and>
   map_option status
     (map_of (worlds (fst (snd (step_world demo_env step_manager 1 1 (\<lambda>k s. s))))) 1)
     = Some COMPLETED"
  by code_simp

text \<open>
  C10, amended. For every existing world and every \<open>n \<ge> 1\<close>, after \<open>step_world(id, n)\<close>
  the status is \<open>PAUSED\<close> if it was \<open>PAUSED\<close> before the call, also when the step counter
  reaches \<open>max_steps\<close> during the stepping and whatever other tasks do to the world while
  \<open>step_world\<close> sleeps between its sub-steps. If it was not \<open>PAUSED\<close> before, and no other
  task acts on the world during those sleeps (so the world has no loop task ticking), the
  status is \<open>COMPLETED\<close> when \<open>max_steps\<close> is set, not zero and at most
  \<open>current_step + n\<close>, and \<open>RUNNING\<close> otherwise.
\<close>

theorem step_world_status:
  assumes "map_of (worlds m) wid = Some w" and "1 \<le> n"
  shows "(status w = PAUSED \<longrightarrow>
            map_option status (map_of (worlds (fst (snd (step_world e m wid n others)))) wid)
              = Some PAUSED) \<and>
         (status w \<noteq> PAUSED \<longrightarrow>
            map_option status (map_of (worlds (fst (snd (step_world e m wid n (\<lambda>k s. s))))) wid)
              = Some (if reaches_max_steps w (current_step w + n) then COMPLETED else RUNNING))"
proof (intro conjI impI)
  assume p: "status w = PAUSED"
  obtain e1 w2 rs where "step_loop others 0 (nat n) e (w\<lparr>status := RUNNING\<rparr>) = (e1, w2, rs)"
    by (cases "step_loop others 0 (nat n) e (w\<lparr>status := RUNNING\<rparr>)") auto
  then show "map_option status (map_of (worlds (fst (snd (step_world e m wid n others)))) wid)
              = Some PAUSED"
    using assms(1) p by (simp add: step_world_def Let_def update_conv')
next
  assume np: "status w \<noteq> PAUSED"
  define w0 where "w0 = w\<lparr>status := RUNNING\<rparr>"
  have r: "status w0 = RUNNING" by (simp add: w0_def)
  have c: "reaches_max_steps w0 (current_step w0 + int (nat n)) = reaches_max_steps w (current_step w + n)"
    using assms(2) by (simp add: reaches_max_steps_def w0_def)
  have n1: "1 \<le> nat n" using assms(2) by simp
  have "status (fst (snd (step_loop (\<lambda>k s. s) 0 (nat n) e w0))) =
           (if reaches_max_steps w (current_step w + n) then COMPLETED else RUNNING)"
    unfolding step_loop_running [OF r, of 0 "nat n" e] c using n1 by simp
  moreover obtain e1 w2 rs where "step_loop (\<lambda>k s. s) 0 (nat n) e w0 = (e1, w2, rs)"
    by (cases "step_loop (\<lambda>k s. s) 0 (nat n) e w0") auto
  ultimately show "map_option status
       (map_of (worlds (fst (snd (step_world e m wid n (\<lambda>k s. s))))) wid)
      = Some (if reaches_max_steps w (current_step w + n) then COMPLETED else RUNNING)"
    using assms(1) np
    by (simp add: step_world_def Let_def w0_def update_conv')
qed

theorem step_world_status_witness:
  "map_of (worlds step_manager) 1
     = Some (meme_world\<lparr>status := CREATED, config := demo_config\<lparr>max_steps := Some 1\<rparr>\<rparr>) \<and>
   (1::int) \<le> 2 \<and>
   status (meme_world\<lparr>status := CREATED, config := demo_config\<lparr>max_steps := Some 1\<rparr>\<rparr>) \<noteq> PAUSED \<and>
   map_option status
     (map_of (worlds (fst (snd (step_world demo_env step_manager 1 2 (\<lambda>k s. s))))) 1)
     = Some COMPLETED"
proof -
  have h1: "map_of (worlds step_manager) 1
     = Some (meme_world\<lparr>status := CREATED, config := demo_config\<lparr>max_steps := Some 1\<rparr>\<rparr>)"
    by (simp add: step_manager_def)
  have h2: "(1::int) \<le> 2" by simp
  show ?thesis
    using h1 h2 step_world_status [OF h1 h2, of demo_env "\<lambda>k s. s"]
    by (simp add: reaches_max_steps_def meme_world_def demo_world_def)
qed

text \<open>
  C3, on the code: for a world that is \<open>CREATED\<close>, the sequence
  \<open>start_world; stop_world; start_world\<close> leaves the status \<open>PAUSED\<close>, while a single
  \<open>start_world\<close> leaves it \<open>RUNNING\<close>: \<open>start_world\<close> calls \<open>World.start\<close>, which acts on
  \<open>CREATED\<close> only, and never \<open>World.resume\<close>.
\<close>

theorem start_stop_start_status:
  assumes "map_of (worlds m) wid = Some w" and "status w = CREATED"
  shows "map_option status (map_of (worlds (start_stop_start e m wid)) wid) = Some PAUSED \<and>
         map_option status (map_of (worlds (fst (snd (start_world e m wid)))) wid) = Some RUNNING"
  using assms
  by (simp add: start_stop_start_def start_world_def stop_world_def start_def pause_def
      update_conv' Let_def split: prod.splits)

theorem start_stop_start_status_witness:
  "map_of (worlds step_manager) 1
     = Some (meme_world\<lparr>status := CREATED, config := demo_config\<lparr>max_steps := Some 1\<rparr>\<rparr>) \<and>
   status (meme_world\<lparr>status := CREATED, config := demo_config\<lparr>max_steps := Some 1\<rparr>\<rparr>) = CREATED \<and>
   map_option status (map_of (worlds (start_stop_start demo_env step_manager 1)) 1) = Some PAUSED \<and>
   map_option status (map_of (worlds (fst (snd (start_world demo_env step_manager 1)))) 1) = Some RUNNING"
proof -
  have h1: "map_of (worlds step_manager) 1
     = Some (meme_world\<lparr>status := CREATED, config := demo_config\<lparr>max_steps := Some 1\<rparr>\<rparr>)"
    by (simp add: step_manager_def)
  have h2: "status (meme_world\<lparr>status := CREATED, config := demo_config\<lparr>max_steps := Some 1\<rparr>\<rparr>) = CREATED"
    by simp
  show ?thesis
    using h1 h2 start_stop_start_status [OF h1 h2, of demo_env] by simp
qed

section \<open>Lemmas on a spreader's turn\<close>

lemma set_idea_events [simp]: "recent_events (set_idea k i w) = recent_events w"
  by (simp add: set_idea_def)

lemma set_agent_events [simp]: "recent_events (set_agent k a w) = recent_events w"
  by (simp add: set_agent_def)

lemma set_agent_ideas [simp]: "ideas (set_agent k a w) = ideas w"
  by (simp add: set_agent_def)

lemma record_event_agents [simp]: "agents (record_event ev w) = agents w"
  by (simp add: record_event_def Let_def)



lemma idea_standing_set_idea [simp]: "idea_standing i (set_idea k x w) = idea_standing i w"
  by (simp add: idea_standing_def fun_eq_iff)








lemma fold_invariant:
  assumes "\<And>x t. x \<in> set xs \<Longrightarrow> P t \<Longrightarrow> P (f x t)" and "P t"
  shows "P (fold f xs t)"
  using assms by (induction xs arbitrary: t) simp_all












section \<open>Properties of the tick\<close>

text \<open>
  C4, on the code: in a tick where agent 11 offers idea 7 to agent 12 and the offer is
  rejected (the exposure and the idea's rejection are counted), the susceptibility of
  agent 12 stays 0.5; multiplied by 1.02 under the ceiling 0.9 it would be 0.51. The
  rejecting branch of \<open>run_step\<close> calls \<open>record_rejection\<close> on the idea and nothing on the
  receiver.
\<close>

theorem rejection_keeps_susceptibility:
  "map_option (\<lambda>a. (susceptibility (state a), beliefs a, idea_exposures a 7))
      (map_of (agents pair_world) 12) = Some (0.5, {}, None) \<and>
   map_option (\<lambda>a. (susceptibility (state a), beliefs a, idea_exposures a 7))
      (map_of (agents (fst (snd (run_step reject_env pair_world)))) 12) = Some (0.5, {}, Some 1) \<and>
   map_option rejection_count (map_of (ideas (fst (snd (run_step reject_env pair_world)))) 7) = Some 1 \<and>
   min 0.9 (0.5 * 1.02) = (0.51 :: real)"
  by code_simp




section \<open>Lemmas on the network\<close>

lemma adjacent_add_node: "adjacent (add_node n g) u v = adjacent g u v"
  by (auto simp: adjacent_def add_node_def)

lemma adjacent_add_neighbour:
  "adjacent (add_neighbour x y g) u v \<Longrightarrow> adjacent g u v \<or> (u = x \<and> v = y)"
  by (auto simp: adjacent_def add_neighbour_def split: if_splits)

lemma adjacent_add_edge:
  "adjacent (add_edge x y g) u v \<Longrightarrow> adjacent g u v \<or> (u = x \<and> v = y) \<or> (u = y \<and> v = x)"
  unfolding add_edge_def
  by (auto dest!: adjacent_add_neighbour simp: adjacent_add_node)

lemma edges_from_adjacent:
  "(u, v) \<in> set (edges_from seen g) \<Longrightarrow> adjacent g u v"
  by (induction seen g rule: edges_from.induct) (auto simp: adjacent_def)

lemma graph_edges_adjacent:
  "(u, v) \<in> set (graph_edges g) \<Longrightarrow> adjacent g u v"
  by (simp add: graph_edges_def edges_from_adjacent)

lemma simple_on_add_edge:
  "simple_on n g \<Longrightarrow> i < n \<Longrightarrow> j < n \<Longrightarrow> i \<noteq> j \<Longrightarrow> simple_on n (add_edge i j g)"
  unfolding simple_on_def by (blast dest: adjacent_add_edge)

lemma geo_attempt_simple:
  assumes "simple_on (length ags) (fst ge)" and "i < length ags"
  shows "simple_on (length ags) (fst (geo_attempt ags i ge))"
proof -
  obtain g e where ge: "ge = (g, e)" by (cases ge)
  have j: "fst (randbelow (length ags) e) < length ags"
  proof -
    from assms(2) have "0 < length ags" by (cases ags) simp_all
    then show ?thesis by (simp add: randbelow_def)
  qed
  show ?thesis
    using assms j
    by (auto simp: geo_attempt_def ge Let_def simple_on_add_edge
        split: prod.splits option.splits)
qed

lemma geo_local_graph_simple:
  "simple_on (length ags) (fst (geo_local_graph ags density e))"
proof -
  have init: "simple_on (length ags) (map (\<lambda>i. (i, [])) [0..<length ags])"
    by (auto simp: simple_on_def adjacent_def)
  show ?thesis
    unfolding geo_local_graph_def Let_def
    by (rule fold_invariant [where P = "\<lambda>ge. simple_on (length ags) (fst ge)"],
        rule fold_invariant [where P = "\<lambda>ge. simple_on (length ags) (fst ge)"])
       (simp_all add: geo_attempt_simple init)
qed

lemma connect_step:
  assumes inv: "net_inv w" and a: "map_of (agents w) u = Some a"
    and b: "map_of (agents w) v = Some b" and ne: "u \<noteq> v"
  shows "net_inv (set_agent v (add_connection b u)
            (set_agent u (add_connection a v) (w\<lparr>network := add_edge u v (network w)\<rparr>)))"
    (is "net_inv ?w3")
proof -
  from inv a b have ida: "agent_id a = u" and idb: "agent_id b = v"
    and sa: "u \<notin> connections a" and sb: "v \<notin> connections b"
    by (auto simp: net_inv_def)
  define a' where "a' = a\<lparr>connections := insert v (connections a)\<rparr>"
  define b' where "b' = b\<lparr>connections := insert u (connections b)\<rparr>"
  have ac: "add_connection a v = a'" using ne ida by (auto simp: add_connection_def a'_def)
  have bc: "add_connection b u = b'" using ne idb by (auto simp: add_connection_def b'_def)
  have m: "map_of (agents ?w3) = (map_of (agents w))(u \<mapsto> a', v \<mapsto> b')"
    by (simp add: set_agent_def update_conv' ac bc)
  have n: "network ?w3 = add_edge u v (network w)"
    by (simp add: set_agent_def)
  have d: "distinct (map fst (agents ?w3))"
    using inv by (simp add: net_inv_def set_agent_def distinct_update)
  have k: "\<forall>k x. map_of (agents ?w3) k = Some x \<longrightarrow> agent_id x = k \<and> k \<notin> connections x"
    using inv ne ida idb sa sb
    by (auto simp: m net_inv_def a'_def b'_def split: if_splits)
  have grow: "\<And>k x. map_of (agents w) k = Some x \<Longrightarrow>
      \<exists>x'. map_of (agents ?w3) k = Some x' \<and> connections x \<subseteq> connections x'"
    using a b by (auto simp: m a'_def b'_def)
  have e: "\<forall>x y. adjacent (network ?w3) x y \<longrightarrow>
         (\<exists>p q. map_of (agents ?w3) x = Some p \<and> map_of (agents ?w3) y = Some q \<and>
            y \<in> connections p \<and> x \<in> connections q)"
  proof (intro allI impI)
    fix x y assume "adjacent (network ?w3) x y"
    then have "adjacent (network w) x y \<or> (x = u \<and> y = v) \<or> (x = v \<and> y = u)"
      unfolding n by (rule adjacent_add_edge)
    then show "\<exists>p q. map_of (agents ?w3) x = Some p \<and> map_of (agents ?w3) y = Some q \<and>
            y \<in> connections p \<and> x \<in> connections q"
    proof (elim disjE)
      assume "adjacent (network w) x y"
      with inv obtain p q where pq: "map_of (agents w) x = Some p" "map_of (agents w) y = Some q"
        "y \<in> connections p" "x \<in> connections q"
        unfolding net_inv_def by blast
      from grow [OF pq(1)] grow [OF pq(2)] pq(3,4) show ?thesis by blast
    next
      assume "x = u \<and> y = v"
      then show ?thesis using ne by (simp add: m a'_def b'_def)
    next
      assume "x = v \<and> y = u"
      then show ?thesis using ne by (simp add: m a'_def b'_def)
    qed
  qed
  from d k e show ?thesis unfolding net_inv_def by blast
qed

lemma connect_step_keys:
  assumes "map_of (agents w) u = Some a" and "map_of (agents w) v = Some b"
  shows "map fst (agents (set_agent v b' (set_agent u a' (w\<lparr>network := g\<rparr>)))) = map fst (agents w)"
proof -
  from assms have "u \<in> set (map fst (agents w))" "v \<in> set (map fst (agents w))"
    by (auto dest!: map_of_SomeD intro: rev_image_eqI)
  then show ?thesis by (simp add: set_agent_def update_keys)
qed

lemma connect_edges_inv:
  assumes "net_inv w" and "agent_ids = map fst (agents w)"
    and "\<forall>(i, j) \<in> set es. i < length agent_ids \<and> j < length agent_ids \<and> i \<noteq> j"
  shows "\<exists>w'. connect_edges agent_ids es w = Inr w' \<and> net_inv w'"
  using assms
proof (induction es arbitrary: w)
  case Nil
  then show ?case by simp
next
  case (Cons ij es)
  obtain i j where ij: "ij = (i, j)" by (cases ij)
  from Cons.prems(3) have r: "i < length agent_ids" "j < length agent_ids" "i \<noteq> j"
    and rest: "\<forall>(i, j) \<in> set es. i < length agent_ids \<and> j < length agent_ids \<and> i \<noteq> j"
    by (auto simp: ij)
  define u where "u = agent_ids ! i"
  define v where "v = agent_ids ! j"
  from Cons.prems(1) have dist: "distinct agent_ids"
    by (simp add: net_inv_def Cons.prems(2))
  have ne: "u \<noteq> v"
    using r dist by (simp add: u_def v_def nth_eq_iff_index_eq)
  have "u \<in> fst ` set (agents w)" "v \<in> fst ` set (agents w)"
    using r Cons.prems(2) by (auto simp: u_def v_def dest: nth_mem)
  then obtain a b where a: "map_of (agents w) u = Some a" and b: "map_of (agents w) v = Some b"
    by (metis map_of_eq_None_iff not_Some_eq)
  define w3 where "w3 = set_agent v (add_connection b u)
            (set_agent u (add_connection a v) (w\<lparr>network := add_edge u v (network w)\<rparr>))"
  have inv3: "net_inv w3"
    unfolding w3_def by (rule connect_step [OF Cons.prems(1) a b ne])
  have keys3: "agent_ids = map fst (agents w3)"
    unfolding w3_def by (simp add: connect_step_keys [OF a b] Cons.prems(2))
  have step: "connect_edges agent_ids (ij # es) w = connect_edges agent_ids es w3"
    using r a b ne
    by (simp add: ij u_def [symmetric] v_def [symmetric] Let_def w3_def map_of_set_agent)
  from Cons.IH [OF inv3 keys3 rest] show ?case by (simp add: step)
qed

lemma add_agents_inv:
  assumes "net_inv w" and "\<forall>u v. \<not> adjacent (network w) u v"
  shows "net_inv (fst (add_agents n e w)) \<and> (\<forall>u v. \<not> adjacent (network (fst (add_agents n e w))) u v)"
  using assms
proof (induction n arbitrary: e w)
  case 0
  then show ?case by simp
next
  case (Suc n)
  obtain p e1 where p: "random_profile e = (p, e1)" by (cases "random_profile e")
  obtain aid e2 where u: "uuid4 e1 = (aid, e2)" by (cases "uuid4 e1")
  define agent where "agent = \<lparr>agent_id = aid, agent_world_id = world_id w, profile = p,
            state = \<lparr>mood = 0.0, susceptibility = 0.5, last_active_step = 0,
              exposure_count = 0, adoption_count = 0\<rparr>,
            connections = {}, beliefs = {}, idea_exposures = Map.empty, memory_refs = []\<rparr>"
  define w2 where "w2 = (set_agent aid agent w)\<lparr>network := add_node aid (network (set_agent aid agent w))\<rparr>"
  have step: "add_agents (Suc n) e w = add_agents n e2 w2"
    by (simp add: p u Let_def agent_def w2_def)
  have noadj: "\<forall>u v. \<not> adjacent (network w2) u v"
    using Suc.prems(2) by (simp add: w2_def adjacent_add_node set_agent_def)
  have m: "map_of (agents w2) = (map_of (agents w))(aid \<mapsto> agent)"
    by (simp add: w2_def set_agent_def update_conv')
  have "net_inv w2"
    unfolding net_inv_def
  proof (intro conjI allI impI)
    show "distinct (map fst (agents w2))"
      using Suc.prems(1) by (simp add: w2_def set_agent_def net_inv_def distinct_update)
  next
    fix k a assume "map_of (agents w2) k = Some a"
    then show "agent_id a = k" "k \<notin> connections a"
      using Suc.prems(1) by (auto simp: m net_inv_def agent_def split: if_splits)
  next
    fix u v assume "adjacent (network w2) u v"
    with noadj show "\<exists>a b. map_of (agents w2) u = Some a \<and> map_of (agents w2) v = Some b \<and>
            v \<in> connections a \<and> u \<in> connections b" by blast
  qed
  then show ?case unfolding step by (intro Suc.IH noadj)
qed

lemma net_inv_symmetric: "net_inv w \<Longrightarrow> connections_symmetric w"
  unfolding net_inv_def connections_symmetric_def
  by (auto dest!: graph_edges_adjacent)

lemma create_network_inv:
  assumes nx: "\<forall>c. \<forall>(i, j) \<in> set (nx c). i < nx_nodes c \<and> j < nx_nodes c \<and> i \<noteq> j"
    and inv: "net_inv w"
  shows "\<exists>w'. snd (create_network nx e w) = Inr w' \<and> net_inv w'"
proof -
  define n where "n = length (map fst (agents w))"
  have lib: "\<And>c. nx_nodes c = n \<Longrightarrow>
      \<forall>(i, j) \<in> set (nx c). i < length (map fst (agents w)) \<and> j < length (map fst (agents w)) \<and> i \<noteq> j"
    using nx unfolding n_def by fastforce
  have geo: "\<forall>(i, j) \<in> set (graph_edges (fst (geo_local_graph (agents w) d e))).
      i < length (map fst (agents w)) \<and> j < length (map fst (agents w)) \<and> i \<noteq> j" for d
    using geo_local_graph_simple [of "agents w" d e]
    by (auto simp: simple_on_def dest!: graph_edges_adjacent)
  show ?thesis
  proof (cases "network_type (config w)")
    case SCALE_FREE
    then show ?thesis
      using connect_edges_inv [OF inv refl lib [of "Barabasi_albert n (max 2 (py_int (real n * network_density (config w) / 2)))"]]
      by (simp add: create_network_def Let_def n_def)
  next
    case SMALL_WORLD
    then show ?thesis
      using connect_edges_inv [OF inv refl lib [of "Watts_strogatz n (max 4 (py_int (real n * network_density (config w)))) 0.3"]]
      by (simp add: create_network_def Let_def n_def)
  next
    case RANDOM_net
    then show ?thesis
      using connect_edges_inv [OF inv refl lib [of "Erdos_renyi n (network_density (config w))"]]
      by (simp add: create_network_def Let_def n_def)
  next
    case GEO_LOCAL
    then show ?thesis
      using connect_edges_inv [OF inv refl geo [of "network_density (config w)"]]
      by (cases "geo_local_graph (agents w) (network_density (config w)) e")
         (simp add: create_network_def Let_def)
  qed
qed

lemma initialize_population_inv:
  assumes nx: "\<forall>c. \<forall>(i, j) \<in> set (nx c). i < nx_nodes c \<and> j < nx_nodes c \<and> i \<noteq> j"
    and "agents w0 = []" and "network w0 = []"
  shows "\<exists>w1. snd (initialize_population nx e w0) = Inr w1 \<and> net_inv w1"
proof -
  have i0: "net_inv w0" and n0: "\<forall>u v. \<not> adjacent (network w0) u v"
    using assms(2,3) by (simp_all add: net_inv_def adjacent_def)
  obtain w1 e1 where a: "add_agents (nat (population_size (config w0))) e w0 = (w1, e1)"
    by (cases "add_agents (nat (population_size (config w0))) e w0")
  from add_agents_inv [OF i0 n0, of "nat (population_size (config w0))" e] a
  have "net_inv w1" by simp
  from create_network_inv [OF nx this, of e1] show ?thesis
    by (simp add: initialize_population_def a)
qed

lemma shape_connections:
  "map agent_shape xs = map agent_shape ys \<Longrightarrow>
   map_option connections (map_of xs k) = map_option connections (map_of ys k)"
proof (induction xs arbitrary: ys)
  case Nil
  then show ?case by simp
next
  case (Cons x xs)
  then obtain y ys' where ys: "ys = y # ys'" by (cases ys) auto
  with Cons.prems have h: "agent_shape x = agent_shape y" and t: "map agent_shape xs = map agent_shape ys'"
    by simp_all
  have ih: "map_option connections (map_of xs k) = map_option connections (map_of ys' k)"
    by (rule Cons.IH [OF t])
  from h ih show ?case
    by (cases x; cases y) (simp add: ys agent_shape_def)
qed

lemma shape_self_free:
  assumes "map agent_shape xs = map agent_shape ys"
    and "\<forall>(k, a) \<in> set xs. agent_id a \<notin> connections a"
  shows "\<forall>(k, a) \<in> set ys. agent_id a \<notin> connections a"
proof -
  have eq: "(\<forall>(k, a) \<in> set zs. agent_id a \<notin> connections a) =
     (\<forall>s \<in> set (map agent_shape zs). fst (snd s) \<notin> fst (snd (snd s)))" for zs
    by (auto simp: agent_shape_def)
  from assms(2) have "\<forall>s \<in> set (map agent_shape xs). fst (snd s) \<notin> fst (snd (snd s))"
    by (rule eq [THEN iffD1])
  then have "\<forall>s \<in> set (map agent_shape ys). fst (snd s) \<notin> fst (snd (snd s))"
    by (simp only: assms(1))
  then show ?thesis by (rule eq [THEN iffD2])
qed

lemma symmetric_transfer:
  assumes "network w' = network w" and "map agent_shape (agents w') = map agent_shape (agents w)"
    and "connections_symmetric w"
  shows "connections_symmetric w'"
  unfolding connections_symmetric_def
proof (intro conjI)
  show "\<forall>(k, a) \<in> set (agents w'). agent_id a \<notin> connections a"
    using shape_self_free [OF assms(2) [symmetric]] assms(3)
    by (simp add: connections_symmetric_def)
next
  show "\<forall>(u, v) \<in> set (graph_edges (network w')).
         \<exists>a b. map_of (agents w') u = Some a \<and> map_of (agents w') v = Some b \<and>
           v \<in> connections a \<and> u \<in> connections b"
  proof (clarify)
    fix u v assume "(u, v) \<in> set (graph_edges (network w'))"
    with assms(1,3) obtain a b where ab: "map_of (agents w) u = Some a" "map_of (agents w) v = Some b"
      "v \<in> connections a" "u \<in> connections b"
      unfolding connections_symmetric_def by fastforce
    from shape_connections [OF assms(2), of u] ab(1)
    obtain a' where a': "map_of (agents w') u = Some a'" "connections a' = connections a" by auto
    from shape_connections [OF assms(2), of v] ab(2)
    obtain b' where b': "map_of (agents w') v = Some b'" "connections b' = connections b" by auto
    from a' b' ab(3,4) show "\<exists>a b. map_of (agents w') u = Some a \<and> map_of (agents w') v = Some b \<and>
           v \<in> connections a \<and> u \<in> connections b" by simp
  qed
qed

lemma run_step_symmetric:
  assumes "connections_symmetric w"
  shows "connections_symmetric (fst (snd (run_step e w)))"
proof (cases "status w = RUNNING")
  case True
  from run_step_running(4,5) [OF True, of e] assms show ?thesis
    by (rule symmetric_transfer)
next
  case False
  then show ?thesis using assms by (simp add: run_step_not_running)
qed

section \<open>Properties of the network\<close>

text \<open>
  C9. For a world as its constructor leaves it, and library generators that return simple
  graphs on the nodes \<open>range(n)\<close> (no loop, no node outside), \<open>initialize_population\<close>
  returns, for each of the four network types, a world in which for every edge \<open>(u, v)\<close>
  of the graph \<open>v\<close> is in the connections of \<open>u\<close> and \<open>u\<close> in those of \<open>v\<close>, and no
  agent is in its own connections; and every tick keeps that property.
\<close>

theorem network_symmetric:
  assumes "\<forall>c. \<forall>(i, j) \<in> set (nx c). i < nx_nodes c \<and> j < nx_nodes c \<and> i \<noteq> j"
    and "agents w0 = []" and "network w0 = []"
  shows "(\<exists>w1. snd (initialize_population nx e w0) = Inr w1 \<and> connections_symmetric w1) \<and>
         (\<forall>w e'. connections_symmetric w \<longrightarrow> connections_symmetric (fst (snd (run_step e' w))))"
proof (intro conjI allI impI)
  from initialize_population_inv [OF assms, of e]
  show "\<exists>w1. snd (initialize_population nx e w0) = Inr w1 \<and> connections_symmetric w1"
    by (blast intro: net_inv_symmetric)
next
  fix w e' assume "connections_symmetric w"
  then show "connections_symmetric (fst (snd (run_step e' w)))"
    by (rule run_step_symmetric)
qed

theorem network_symmetric_witness:
  "agents fresh_world = [] \<and> network fresh_world = [] \<and>
   demo_nx (Erdos_renyi 3 0.5) = [(0, 1), (1, 2)] \<and>
   (\<exists>w1. snd (initialize_population demo_nx demo_env fresh_world) = Inr w1 \<and>
      connections_symmetric w1)"
proof -
  have h1: "\<forall>c. \<forall>(i, j) \<in> set (demo_nx c). i < nx_nodes c \<and> j < nx_nodes c \<and> i \<noteq> j"
    by (auto simp: demo_nx_def)
  have h2: "agents fresh_world = []" and h3: "network fresh_world = []"
    by (simp_all add: fresh_world_def new_world_def utcnow_def Let_def)
  have h4: "demo_nx (Erdos_renyi 3 0.5) = [(0, 1), (1, 2)]"
    by (simp add: demo_nx_def)
  from network_symmetric [OF h1 h2 h3, of demo_env]
  have ex: "\<exists>w1. snd (initialize_population demo_nx demo_env fresh_world) = Inr w1 \<and>
      connections_symmetric w1" by (rule conjunct1)
  show ?thesis by (intro conjI h2 h3 h4 ex)
qed

section \<open>Lemmas on serialisation\<close>

lemma hex_value_digit: "d < 16 \<Longrightarrow> hex_value (hex_digit d) = Some d"
  by (auto simp: hex_value_def hex_digit_def)

lemma hex_digit_not_hyphen: "hex_digit d \<noteq> 45"
  by (simp add: hex_digit_def)

lemma parse_hex_append:
  "parse_hex (xs @ ys) acc = (case parse_hex xs acc of None \<Rightarrow> None | Some a \<Rightarrow> parse_hex ys a)"
  by (induction xs arbitrary: acc) (auto split: option.splits)

lemma parse_hex_of: "parse_hex (hex_of k n) acc = Some (acc * 16 ^ k + n mod 16 ^ k)"
proof (induction k arbitrary: n acc)
  case 0
  show ?case by simp
next
  case (Suc k)
  have "n mod (16 * 16 ^ k) = 16 * (n div 16 mod 16 ^ k) + n mod 16"
    by (rule mod_mult2_eq)
  then show ?case
    by (simp add: parse_hex_append Suc.IH hex_value_digit algebra_simps)
qed

lemma length_hex_of [simp]: "length (hex_of k n) = k"
  by (induction k arbitrary: n) simp_all

lemma hex_of_no_hyphen: "45 \<notin> set (hex_of k n)"
  by (induction k arbitrary: n) (simp_all add: hex_digit_not_hyphen [symmetric])

lemma filter_no_hyphen: "45 \<notin> set xs \<Longrightarrow> filter (\<lambda>c. c \<noteq> 45) xs = xs"
  by (induction xs) auto

lemma uuid_str_filter: "filter (\<lambda>c. c \<noteq> 45) (uuid_str u) = hex_of 32 (unat u)"
proof -
  define h where "h = hex_of 32 (unat u)"
  have nh: "45 \<notin> set h" by (simp add: h_def hex_of_no_hyphen)
  have p: "\<And>a b. filter (\<lambda>c. c \<noteq> 45) (take a (drop b h)) = take a (drop b h)"
    by (rule filter_no_hyphen) (use nh in \<open>auto dest: in_set_takeD in_set_dropD\<close>)
  have q: "\<And>a. filter (\<lambda>c. c \<noteq> 45) (take a h) = take a h"
    "\<And>b. filter (\<lambda>c. c \<noteq> 45) (drop b h) = drop b h"
    by (rule filter_no_hyphen, use nh in \<open>auto dest: in_set_takeD in_set_dropD\<close>)+
  have "take 8 h @ take 4 (drop 8 h) @ take 4 (drop 12 h) @ take 4 (drop 16 h) @ drop 20 h = h"
  proof -
    have "take 8 h @ take 4 (drop 8 h) = take 12 h" using take_add [of 8 4 h] by simp
    moreover have "take 12 h @ take 4 (drop 12 h) = take 16 h" using take_add [of 12 4 h] by simp
    moreover have "take 16 h @ take 4 (drop 16 h) = take 20 h" using take_add [of 16 4 h] by simp
    ultimately have "take 8 h @ take 4 (drop 8 h) @ take 4 (drop 12 h) @ take 4 (drop 16 h) = take 20 h"
      by (metis append.assoc)
    then show ?thesis by (metis append.assoc append_take_drop_id)
  qed
  then show ?thesis
    by (simp add: uuid_str_def Let_def h_def [symmetric] p q)
qed

lemma uuid_roundtrip: "uuid_parse (uuid_str u) = Inr u"
proof -
  have "unat u < 2 ^ LENGTH(128)" by (rule unsigned_less)
  then have "unat u < 16 ^ 32" by simp
  then have "unat u mod 16 ^ 32 = unat u" by (rule mod_less)
  then show ?thesis
    by (simp add: uuid_parse_def uuid_str_filter parse_hex_of Let_def)
qed

lemma uuid_str_nonempty: "uuid_str u \<noteq> []"
  by (simp add: uuid_str_def Let_def)

lemma parse_dec_append:
  "parse_dec (xs @ ys) acc = (case parse_dec xs acc of None \<Rightarrow> None | Some a \<Rightarrow> parse_dec ys a)"
  by (induction xs arbitrary: acc) (auto split: option.splits)

lemma dec_of_small: "n < 10 \<Longrightarrow> dec_of n = [48 + n]"
  by (subst dec_of.simps) simp

lemma dec_of_large: "\<not> n < 10 \<Longrightarrow> dec_of n = dec_of (n div 10) @ [48 + n mod 10]"
  by (subst dec_of.simps) simp

lemma parse_dec_of: "parse_dec (dec_of n) acc = Some (acc * 10 ^ length (dec_of n) + n)"
proof (induction n arbitrary: acc rule: dec_of.induct)
  case (1 n)
  show ?case
  proof (cases "n < 10")
    case True
    then show ?thesis by (simp add: dec_of_small)
  next
    case False
    have "parse_dec (dec_of (n div 10)) acc
            = Some (acc * 10 ^ length (dec_of (n div 10)) + n div 10)"
      by (rule "1.IH" [OF False])
    moreover have "(acc * 10 ^ length (dec_of (n div 10)) + n div 10) * 10 + n mod 10
        = acc * 10 ^ length (dec_of n) + n"
      by (simp add: dec_of_large [OF False] algebra_simps)
    ultimately show ?thesis
      by (simp add: dec_of_large [OF False] parse_dec_append)
  qed
qed

lemma dec_of_nonempty: "dec_of n \<noteq> []"
  by (cases "n < 10") (simp_all add: dec_of_small dec_of_large)

lemma iso_roundtrip: "fromisoformat (isoformat d) = Inr d"
  by (simp add: fromisoformat_def isoformat_def dec_of_nonempty parse_dec_of)

lemma isoformat_nonempty: "isoformat d \<noteq> []"
  by (simp add: isoformat_def dec_of_nonempty)

lemma and_then_Inr [simp]: "and_then (Inr x) f = f x"
  by (simp add: and_then_def)

lemma and_then_Inl [simp]: "and_then (Inl err) f = Inl err"
  by (simp add: and_then_def)

lemma str_items_roundtrip [simp]: "str_items (map PyStr xs) = Inr xs"
  by (induction xs) simp_all

lemma uuid_items_roundtrip [simp]: "uuid_items (map (\<lambda>u. PyStr (uuid_str u)) us) = Inr us"
  by (induction us) (simp_all add: uuid_roundtrip)

lemma mutation_type_roundtrip [simp]: "mutation_type_of (mutation_type_value k) = Inr k"
  by (cases k) (simp_all add: mutation_type_of_def ascii_def)

lemma as_uuid_roundtrip [simp]: "as_uuid (PyStr (uuid_str u)) = Inr u"
  by (simp add: as_uuid_def uuid_roundtrip)

lemma mutation_type_value_nonempty [simp]: "mutation_type_value k \<noteq> []"
  by (cases k) (simp_all add: ascii_def)

lemma idea_roundtrip: "idea_from_dict e (idea_to_dict i) = (e, Inr i)"
  by (simp add: idea_from_dict_def idea_to_dict_def item_def get_or_def
      uuid_str_nonempty isoformat_nonempty iso_roundtrip split: option.splits)

lemma agent_roundtrip:
  "agent_from_dict (agent_to_dict a) = Inr (a\<lparr>idea_exposures := Map.empty, memory_refs := []\<rparr>)"
  by (simp add: agent_from_dict_def agent_to_dict_def item_def Let_def)

section \<open>Properties of serialisation\<close>

text \<open>
  C5 fails as stated: an agent exposed three times to idea 7 comes back from
  \<open>from_dict (to_dict agent)\<close> with no exposure count at all.
\<close>

theorem agent_roundtrip_counterexample:
  "idea_exposures exposed_agent 7 = Some 3 \<and>
   agent_from_dict (agent_to_dict exposed_agent) = Inr (demo_agent 11 {12} {7}) \<and>
   idea_exposures (demo_agent 11 {12} {7}) 7 = None"
  by (simp add: agent_roundtrip exposed_agent_def demo_agent_def)

text \<open>
  C5, amended. For every Idea, serialising and deserialising yields an equal value, every
  field included, and does not call the clock. For every Agent it yields the agent with
  every field equal except \<open>idea_exposures\<close> and \<open>memory_refs\<close>, which come back empty.
\<close>

theorem serialise_roundtrip:
  "idea_from_dict e (idea_to_dict i) = (e, Inr i) \<and>
   agent_from_dict (agent_to_dict a) = Inr (a\<lparr>idea_exposures := Map.empty, memory_refs := []\<rparr>)"
  by (simp add: idea_roundtrip agent_roundtrip)

theorem serialise_roundtrip_witness:
  "idea_from_dict demo_env (idea_to_dict meme_idea) = (demo_env, Inr meme_idea) \<and>
   agent_from_dict (agent_to_dict (demo_agent 11 {12} {7})) = Inr (demo_agent 11 {12} {7})"
  using serialise_roundtrip [of demo_env meme_idea "demo_agent 11 {12} {7}"]
  by (simp add: demo_agent_def)

end
